theory Spec2Isabelle
  imports Complex_Main
begin

section \<open>Numbers\<close>

text \<open>
  The source is TypeScript and computes with the \<^verbatim>\<open>number\<close> of the language. The
  embedding keeps of that type what does not depend on rounding: a number is a finite
  real, or it is not finite. \<open>NonFinite\<close> stands for the three values \<^verbatim>\<open>NaN\<close>,
  \<^verbatim>\<open>Infinity\<close> and \<^verbatim>\<open>-Infinity\<close>. On finite numbers the arithmetic is that of the
  reals (no rounding, no overflow, one zero), except that a division by zero is not
  finite. An operation with an operand that is not finite gives a result that is not
  finite, and a comparison with such an operand is false.

  These are the rules of \<^verbatim>\<open>NaN\<close>. An infinity obeys them too, except where it is
  compared, passed to \<^verbatim>\<open>Math.min\<close>, \<^verbatim>\<open>Math.max\<close> or \<^verbatim>\<open>Math.atan2\<close>, or divided by.
  With a finite parameter set and a finite crank angle the evaluator does none of that
  to an infinity. An infinity can arise only where a nonzero number is divided by zero,
  and the evaluator divides by a quantity that can be zero in three places: for the
  stiffness \<open>K\<close> and for the coefficient \<open>h42\<close>, which are only multiplied and stored
  afterwards, and for the cosine of \<open>beta\<close>, whose numerator is zero whenever its
  denominator is (lemma \<open>cos_beta_zero_over_zero\<close> below): that quotient is a
  \<^verbatim>\<open>NaN\<close> and never an infinity.
\<close>

datatype number = Fin real | NonFinite

text \<open>The integer part of a real, rounded towards zero.\<close>

definition trunc :: "real \<Rightarrow> int" where
  "trunc x = (if 0 \<le> x then \<lfloor>x\<rfloor> else \<lceil>x\<rceil>)"

text \<open>
  The remainder \<^verbatim>\<open>a % n\<close> of two finite numbers, \<open>n\<close> not zero: the quotient is
  truncated towards zero, so that the remainder has the sign of \<open>a\<close>.
\<close>

definition rem :: "real \<Rightarrow> real \<Rightarrow> real" where
  "rem a n = a - n * of_int (trunc (a / n))"

text \<open>The operators \<^verbatim>\<open>+ - * / %\<close> and the comparisons of the source.\<close>

instantiation number :: "{plus, minus, uminus, times, inverse, modulo, ord}"
begin

fun plus_number :: "number \<Rightarrow> number \<Rightarrow> number" where
  "plus_number (Fin x) (Fin y) = Fin (x + y)"
| "plus_number _ _ = NonFinite"

fun minus_number :: "number \<Rightarrow> number \<Rightarrow> number" where
  "minus_number (Fin x) (Fin y) = Fin (x - y)"
| "minus_number _ _ = NonFinite"

fun uminus_number :: "number \<Rightarrow> number" where
  "uminus_number (Fin x) = Fin (- x)"
| "uminus_number NonFinite = NonFinite"

fun times_number :: "number \<Rightarrow> number \<Rightarrow> number" where
  "times_number (Fin x) (Fin y) = Fin (x * y)"
| "times_number _ _ = NonFinite"

fun divide_number :: "number \<Rightarrow> number \<Rightarrow> number" where
  "divide_number (Fin x) (Fin y) = (if y = 0 then NonFinite else Fin (x / y))"
| "divide_number _ _ = NonFinite"

definition inverse_number :: "number \<Rightarrow> number" where
  "inverse_number (x::number) = divide (Fin 1) x"

fun modulo_number :: "number \<Rightarrow> number \<Rightarrow> number" where
  "modulo_number (Fin a) (Fin n) =
     (if n = 0 then NonFinite else Fin (rem a n))"
| "modulo_number _ _ = NonFinite"

fun less_number :: "number \<Rightarrow> number \<Rightarrow> bool" where
  "less_number (Fin x) (Fin y) = (x < y)"
| "less_number _ _ = False"

fun less_eq_number :: "number \<Rightarrow> number \<Rightarrow> bool" where
  "less_eq_number (Fin x) (Fin y) = (x \<le> y)"
| "less_eq_number _ _ = False"

instance ..

end

text \<open>The functions of \<^verbatim>\<open>Math\<close> that the source calls.\<close>

definition Math_PI :: number where
  "Math_PI = Fin pi"

fun Math_cos :: "number \<Rightarrow> number" where
  "Math_cos (Fin x) = Fin (cos x)"
| "Math_cos NonFinite = NonFinite"

fun Math_sin :: "number \<Rightarrow> number" where
  "Math_sin (Fin x) = Fin (sin x)"
| "Math_sin NonFinite = NonFinite"

fun Math_sqrt :: "number \<Rightarrow> number" where
  "Math_sqrt (Fin x) = (if x < 0 then NonFinite else Fin (sqrt x))"
| "Math_sqrt NonFinite = NonFinite"

fun Math_abs :: "number \<Rightarrow> number" where
  "Math_abs (Fin x) = Fin \<bar>x\<bar>"
| "Math_abs NonFinite = NonFinite"

fun Math_pow :: "number \<Rightarrow> nat \<Rightarrow> number" where
  "Math_pow (Fin x) n = Fin (x ^ n)"
| "Math_pow NonFinite n = (if n = 0 then Fin 1 else NonFinite)"

fun Math_max :: "number \<Rightarrow> number \<Rightarrow> number" where
  "Math_max (Fin x) (Fin y) = Fin (max x y)"
| "Math_max _ _ = NonFinite"

fun Math_min :: "number \<Rightarrow> number \<Rightarrow> number" where
  "Math_min (Fin x) (Fin y) = Fin (min x y)"
| "Math_min _ _ = NonFinite"

fun Math_acos :: "number \<Rightarrow> number" where
  "Math_acos (Fin x) = (if - 1 \<le> x \<and> x \<le> 1 then Fin (arccos x) else NonFinite)"
| "Math_acos NonFinite = NonFinite"

text \<open>
  \<^verbatim>\<open>Math.atan2(y, x)\<close> of two finite numbers: the angle of the point \<open>(x, y)\<close> in
  \<open>(-pi, pi]\<close>, and 0 at the origin.
\<close>

definition atan2 :: "real \<Rightarrow> real \<Rightarrow> real" where
  "atan2 y x =
     (if 0 < x then arctan (y / x)
      else if x < 0 then (if 0 \<le> y then arctan (y / x) + pi else arctan (y / x) - pi)
      else if 0 < y then pi / 2
      else if y < 0 then - (pi / 2)
      else 0)"

fun Math_atan2 :: "number \<Rightarrow> number \<Rightarrow> number" where
  "Math_atan2 (Fin y) (Fin x) = Fin (atan2 y x)"
| "Math_atan2 _ _ = NonFinite"

section \<open>The PRB model of the compliant bistable four-bar\<close>

subsection \<open>constants.ts\<close>

definition PRB_GAMMA :: number where
  "PRB_GAMMA = Fin 0.85"

definition PRB_K_THETA :: number where
  "PRB_K_THETA = Fin 2.65"

subsection \<open>types.ts\<close>

text \<open>
  A parameter set holds finite numbers: the data model requires it, and the sliders of
  the user interface produce nothing else. Its fields are therefore reals, which the
  evaluator reads as numbers. The fields of the records that the core returns are
  numbers, finite or not.
\<close>

record MechanismParams =
  r1 :: real
  r2 :: real
  r3 :: real
  L4 :: real
  E :: real
  b :: real
  h :: real
  theta20 :: real
  theta40 :: real

record PRBDetails =
  gamma :: number
  kTheta :: number
  r4 :: number
  I :: number
  K :: number

record SimulationPoint =
  theta2 :: number
  theta3 :: number
  theta4 :: number
  deltaTheta2 :: number
  energy :: number
  torque :: number
  isValid :: bool
  prb :: PRBDetails

record JointPositions =
  A0 :: "number \<times> number"
  A :: "number \<times> number"
  B :: "number \<times> number"
  B0 :: "number \<times> number"

definition DEFAULT_PARAMS :: MechanismParams where
  "DEFAULT_PARAMS =
     \<lparr> r1 = 3.0, r2 = 1.5, r3 = 3.71, L4 = 4.32,
       E = 1400000000, b = 0.005, h = 0.0015,
       theta20 = 90, theta40 = 90 \<rparr>"

subsection \<open>PRBModel.ts\<close>

definition normalizeDegrees :: "number \<Rightarrow> number" where
  "normalizeDegrees deg =
     (let d = deg mod Fin 360;
          d = (if d > Fin 180 then d - Fin 360 else d);
          d = (if d \<le> Fin (- 180) then d + Fin 360 else d)
      in d)"

definition normalizeRadians :: "number \<Rightarrow> number" where
  "normalizeRadians rad =
     (let r = rad mod (Fin 2 * Math_PI);
          r = (if r > Math_PI then r - Fin 2 * Math_PI else r);
          r = (if r \<le> - Math_PI then r + Fin 2 * Math_PI else r)
      in r)"

text \<open>
  The body of \<^verbatim>\<open>calculateKinematics\<close> in the order of the source. The first line is
  the destructuring of \<open>params\<close>. The three mutable locals \<open>isValid\<close>, \<open>t3\<close> and \<open>t4\<close>,
  initialised to \<open>true\<close>, 0 and 0 and assigned in the branches of the assembly test, are
  the triple that the test returns.
\<close>

definition calculateKinematics :: "real \<Rightarrow> MechanismParams \<Rightarrow> SimulationPoint" where
  "calculateKinematics theta2Deg params =
     (let r1 = Fin (r1 params); r2 = Fin (r2 params); r3 = Fin (r3 params);
          L4 = Fin (L4 params); E = Fin (E params); b = Fin (b params); h = Fin (h params);
          theta40 = Fin (theta40 params); theta20 = Fin (theta20 params);
          r4 = PRB_GAMMA * L4;
          theta2Rad = (Fin theta2Deg * Math_PI) / Fin 180;
          theta40Rad = (theta40 * Math_PI) / Fin 180;
          L4_meters = L4 / Fin 100;
          I_val = (b * Math_pow h 3) / Fin 12;
          K_val = PRB_GAMMA * PRB_K_THETA * (E * I_val / L4_meters);
          prb = \<lparr> gamma = PRB_GAMMA, kTheta = PRB_K_THETA, r4 = r4, I = I_val, K = K_val \<rparr>;
          Ax = r2 * Math_cos theta2Rad;
          Ay = r2 * Math_sin theta2Rad;
          dx = Ax - r1;
          dy = Ay;
          distSq = dx * dx + dy * dy;
          dist = Math_sqrt distSq;
          (isValid, t3, t4) =
            (if dist > (r3 + r4) \<or> dist < Math_abs (r3 - r4) then (False, Fin 0, Fin 0)
             else
               let cosBeta = (r4 * r4 + distSq - r3 * r3) / (Fin 2 * r4 * dist);
                   beta = Math_acos (Math_max (Fin (- 1)) (Math_min (Fin 1) cosBeta));
                   phi = Math_atan2 dy dx;
                   t4 = phi - beta;
                   Bx = r1 + r4 * Math_cos t4;
                   By = r4 * Math_sin t4;
                   t3 = Math_atan2 (By - Ay) (Bx - Ax)
               in (True, t3, t4));
          deltaTheta4 = (if isValid then normalizeRadians (t4 - theta40Rad) else Fin 0);
          energy = (if isValid then Fin 0.5 * K_val * Math_pow deltaTheta4 2 else Fin 0);
          h42_val = (if isValid then (r2 * Math_sin (t3 - theta2Rad)) / (r4 * Math_sin (t3 - t4))
                     else Fin 0);
          torque_val = (if isValid then K_val * deltaTheta4 * h42_val else Fin 0)
      in \<lparr> theta2 = Fin theta2Deg,
           theta3 = normalizeDegrees ((t3 * Fin 180) / Math_PI),
           theta4 = normalizeDegrees ((t4 * Fin 180) / Math_PI),
           deltaTheta2 = Fin theta2Deg - theta20,
           energy = energy,
           torque = torque_val,
           isValid = isValid,
           prb = prb \<rparr>)"

definition getJointPositions :: "SimulationPoint \<Rightarrow> MechanismParams \<Rightarrow> JointPositions" where
  "getJointPositions point params =
     (let r1 = Fin (r1 params); r2 = Fin (r2 params); r3 = Fin (r3 params);
          theta2Rad = (theta2 point * Math_PI) / Fin 180;
          theta3Rad = (theta3 point * Math_PI) / Fin 180;
          A0_pos = (Fin 0, Fin 0);
          B0_pos = (r1, Fin 0);
          A_pos = (r2 * Math_cos theta2Rad, r2 * Math_sin theta2Rad);
          B_pos = (fst A_pos + r3 * Math_cos theta3Rad, snd A_pos + r3 * Math_sin theta3Rad)
      in \<lparr> A0 = A0_pos, A = A_pos, B = B_pos, B0 = B0_pos \<rparr>)"

section \<open>The algorithm as the specification words it\<close>

text \<open>
  The quantities of section 4.1 of the specification, each defined from its sentence
  there and not from the code, angles in radians. The crank pin, the pivot, their
  distance and the angle \<open>phi\<close> are finite for every parameter set and are reals; what
  is computed through a quotient is a number.
\<close>

definition spec_distance :: "real \<times> real \<Rightarrow> real \<times> real \<Rightarrow> real" where
  "spec_distance P Q = sqrt ((fst P - fst Q)\<^sup>2 + (snd P - snd Q)\<^sup>2)"

definition spec_r4 :: "MechanismParams \<Rightarrow> real" where
  "spec_r4 p = 0.85 * L4 p"

definition spec_I :: "MechanismParams \<Rightarrow> real" where
  "spec_I p = b p * h p ^ 3 / 12"

definition spec_K :: "MechanismParams \<Rightarrow> number" where
  "spec_K p = Fin (0.85 * 2.65 * E p * spec_I p) / Fin (L4 p / 100)"

definition spec_A :: "real \<Rightarrow> MechanismParams \<Rightarrow> real \<times> real" where
  "spec_A th p = (r2 p * cos (th * pi / 180), r2 p * sin (th * pi / 180))"

definition spec_B0 :: "MechanismParams \<Rightarrow> real \<times> real" where
  "spec_B0 p = (r1 p, 0)"

definition spec_d :: "real \<Rightarrow> MechanismParams \<Rightarrow> real" where
  "spec_d th p = spec_distance (spec_A th p) (spec_B0 p)"

definition spec_infeasible :: "real \<Rightarrow> MechanismParams \<Rightarrow> bool" where
  "spec_infeasible th p =
     (spec_d th p > r3 p + spec_r4 p \<or> spec_d th p < \<bar>r3 p - spec_r4 p\<bar>)"

definition spec_cos_beta :: "real \<Rightarrow> MechanismParams \<Rightarrow> number" where
  "spec_cos_beta th p =
     Fin ((spec_r4 p)\<^sup>2 + (spec_d th p)\<^sup>2 - (r3 p)\<^sup>2) / Fin (2 * spec_r4 p * spec_d th p)"

definition spec_beta :: "real \<Rightarrow> MechanismParams \<Rightarrow> number" where
  "spec_beta th p = Math_acos (Math_max (Fin (- 1)) (Math_min (Fin 1) (spec_cos_beta th p)))"

definition spec_phi :: "real \<Rightarrow> MechanismParams \<Rightarrow> real" where
  "spec_phi th p =
     atan2 (snd (spec_A th p) - snd (spec_B0 p)) (fst (spec_A th p) - fst (spec_B0 p))"

definition spec_t4 :: "real \<Rightarrow> MechanismParams \<Rightarrow> number" where
  "spec_t4 th p = Fin (spec_phi th p) - spec_beta th p"

definition spec_B :: "real \<Rightarrow> MechanismParams \<Rightarrow> number \<times> number" where
  "spec_B th p =
     (Fin (fst (spec_B0 p)) + Fin (spec_r4 p) * Math_cos (spec_t4 th p),
      Fin (snd (spec_B0 p)) + Fin (spec_r4 p) * Math_sin (spec_t4 th p))"

definition spec_t3 :: "real \<Rightarrow> MechanismParams \<Rightarrow> number" where
  "spec_t3 th p =
     Math_atan2 (snd (spec_B th p) - Fin (snd (spec_A th p)))
                (fst (spec_B th p) - Fin (fst (spec_A th p)))"

definition spec_delta_theta4 :: "real \<Rightarrow> MechanismParams \<Rightarrow> number" where
  "spec_delta_theta4 th p = normalizeRadians (spec_t4 th p - Fin (theta40 p * pi / 180))"

definition spec_h42 :: "real \<Rightarrow> MechanismParams \<Rightarrow> number" where
  "spec_h42 th p =
     (Fin (r2 p) * Math_sin (spec_t3 th p - Fin (th * pi / 180))) /
     (Fin (spec_r4 p) * Math_sin (spec_t3 th p - spec_t4 th p))"

text \<open>The distance of two points whose coordinates are numbers.\<close>

definition spec_distance_number :: "number \<times> number \<Rightarrow> number \<times> number \<Rightarrow> number" where
  "spec_distance_number P Q =
     Math_sqrt (Math_pow (fst P - fst Q) 2 + Math_pow (snd P - snd Q) 2)"

section \<open>The finite values\<close>

text \<open>
  What the two normalisations and the quantities above are as reals, where no
  denominator is zero. \<open>wrapv\<close> is the pair of conditional shifts that both
  normalisations apply to a remainder \<open>r\<close>, for a half period \<open>H\<close>.
\<close>

definition wrapv :: "real \<Rightarrow> real \<Rightarrow> real" where
  "wrapv H r =
     (let r = (if r > H then r - 2 * H else r);
          r = (if r \<le> - H then r + 2 * H else r)
      in r)"

definition wrap_degrees :: "real \<Rightarrow> real" where
  "wrap_degrees x = wrapv 180 (rem x 360)"

definition wrap_radians :: "real \<Rightarrow> real" where
  "wrap_radians x = wrapv pi (rem x (2 * pi))"

definition K_value :: "MechanismParams \<Rightarrow> real" where
  "K_value p = 0.85 * 2.65 * E p * spec_I p / (L4 p / 100)"

definition cos_beta_value :: "real \<Rightarrow> MechanismParams \<Rightarrow> real" where
  "cos_beta_value th p =
     ((spec_r4 p)\<^sup>2 + (spec_d th p)\<^sup>2 - (r3 p)\<^sup>2) / (2 * spec_r4 p * spec_d th p)"

definition beta_value :: "real \<Rightarrow> MechanismParams \<Rightarrow> real" where
  "beta_value th p = arccos (max (- 1) (min 1 (cos_beta_value th p)))"

definition t4_value :: "real \<Rightarrow> MechanismParams \<Rightarrow> real" where
  "t4_value th p = spec_phi th p - beta_value th p"

definition B_value :: "real \<Rightarrow> MechanismParams \<Rightarrow> real \<times> real" where
  "B_value th p =
     (fst (spec_B0 p) + spec_r4 p * cos (t4_value th p),
      snd (spec_B0 p) + spec_r4 p * sin (t4_value th p))"

definition t3_value :: "real \<Rightarrow> MechanismParams \<Rightarrow> real" where
  "t3_value th p =
     atan2 (snd (B_value th p) - snd (spec_A th p)) (fst (B_value th p) - fst (spec_A th p))"

definition delta_theta4_value :: "real \<Rightarrow> MechanismParams \<Rightarrow> real" where
  "delta_theta4_value th p = wrap_radians (t4_value th p - theta40 p * pi / 180)"

section \<open>Example parameter sets\<close>

text \<open>
  Four parameter sets inside the ranges of the sliders of the user interface, with
  closed-form solutions. In \<open>params_345\<close> the reduced rocker is 4 long and at crank
  angle 0 the pin \<open>A\<close>, the pivot \<open>B0\<close> and the pin \<open>B\<close> form a 3-4-5 triangle with
  the rocker at 90 degrees, a quarter turn from its undeflected angle 0. In
  \<open>params_apart\<close> the coupler and the rocker together are too short to reach the
  crank pin at crank angle 0. In \<open>params_toggle\<close> the reduced rocker is 3 long and at
  crank angle 90 the distance from \<open>A\<close> to \<open>B0\<close> is 5, the sum of coupler and rocker,
  so that the two are stretched out in line: a toggle position. In
  \<open>params_coincident\<close> crank and ground link have the same length, so that at crank
  angle 0 the crank pin \<open>A\<close> lies on the pivot \<open>B0\<close>, and the coupler is as long as
  the reduced rocker, \<open>1.7 = 0.85 * 2\<close>: the loop closes with the rocker at any angle.
\<close>

definition params_345 :: MechanismParams where
  "params_345 =
     \<lparr> r1 = 4, r2 = 1, r3 = 5, L4 = 80 / 17,
       E = 1400000000, b = 0.005, h = 0.0015,
       theta20 = 90, theta40 = 0 \<rparr>"

definition params_apart :: MechanismParams where
  "params_apart =
     \<lparr> r1 = 10, r2 = 1, r3 = 1, L4 = 1,
       E = 1400000000, b = 0.005, h = 0.0015,
       theta20 = 90, theta40 = 90 \<rparr>"

definition params_toggle :: MechanismParams where
  "params_toggle =
     \<lparr> r1 = 4, r2 = 3, r3 = 2, L4 = 60 / 17,
       E = 1400000000, b = 0.005, h = 0.0015,
       theta20 = 90, theta40 = 90 \<rparr>"

definition params_coincident :: MechanismParams where
  "params_coincident =
     \<lparr> r1 = 1, r2 = 1, r3 = 1.7, L4 = 2,
       E = 1400000000, b = 0.005, h = 0.0015,
       theta20 = 90, theta40 = 90 \<rparr>"

subsection \<open>The reference scenario\<close>

text \<open>
  Three numbers of the evaluation at \<^const>\<open>DEFAULT_PARAMS\<close> and crank angles 90 and -90:
  the cosine of \<open>beta\<close>, the angle of the segment from \<open>B0\<close> to \<open>A\<close> against the
  ground link, and \<open>beta\<close> itself.
\<close>

definition ref_c :: real where
  "ref_c = (2742371 / 2754000) / sqrt 5"

definition ref_a :: real where
  "ref_a = arctan (1 / 2)"

definition ref_b :: real where
  "ref_b = arccos ref_c"

section \<open>Remainder and normalisation\<close>

lemma trunc_bounds: "\<bar>x - of_int (trunc x)\<bar> < 1"
  unfolding trunc_def by (simp; linarith)

lemma rem_shift: "n \<noteq> 0 \<Longrightarrow> rem a n = n * (a / n - of_int (trunc (a / n)))"
  by (simp add: rem_def algebra_simps)

lemma rem_abs_less:
  assumes "0 < n"
  shows "\<bar>rem a n\<bar> < n"
proof -
  have "\<bar>rem a n\<bar> = n * \<bar>a / n - of_int (trunc (a / n))\<bar>"
    using assms by (simp add: rem_shift abs_mult)
  also have "\<dots> < n * 1"
    using assms trunc_bounds[of "a / n"] by (intro mult_strict_left_mono) auto
  finally show ?thesis by simp
qed

lemma rem_congruent: "rem a n = a + n * of_int (- trunc (a / n))"
  by (simp add: rem_def)

lemma rem_small:
  assumes "0 < n" "\<bar>a\<bar> < n"
  shows "rem a n = a"
proof -
  have "- 1 < a / n" "a / n < 1"
    using assms by (simp_all add: pos_less_divide_eq pos_divide_less_eq)
  then have "trunc (a / n) = 0"
    unfolding trunc_def by (auto simp: floor_eq_iff ceiling_eq_iff)
  then show ?thesis by (simp add: rem_def)
qed

lemma wrapv_cases:
  "wrapv H r = r \<or> wrapv H r = r - 2 * H \<or> wrapv H r = r + 2 * H"
  unfolding wrapv_def Let_def by (cases "r > H"; cases "r \<le> - H"; simp; argo)

lemma wrapv_range:
  assumes "0 < H" "\<bar>r\<bar> < 2 * H"
  shows "- H < wrapv H r \<and> wrapv H r \<le> H"
  using assms unfolding wrapv_def Let_def by (cases "r > H"; cases "r \<le> - H"; simp; linarith)

lemma wrapv_congruent:
  assumes "r = x + 2 * H * of_int k"
  shows "\<exists>j::int. wrapv H r = x + 2 * H * of_int j"
proof -
  have a: "r - 2 * H = x + 2 * H * of_int (k - 1)"
    using assms by (simp add: algebra_simps)
  have b: "r + 2 * H = x + 2 * H * of_int (k + 1)"
    using assms by (simp add: algebra_simps)
  consider "wrapv H r = r" | "wrapv H r = r - 2 * H" | "wrapv H r = r + 2 * H"
    using wrapv_cases by blast
  then show ?thesis
  proof cases
    case 1
    with assms show ?thesis by (intro exI[of _ k]) simp
  next
    case 2
    with a show ?thesis by (intro exI[of _ "k - 1"]) simp
  next
    case 3
    with b show ?thesis by (intro exI[of _ "k + 1"]) simp
  qed
qed

lemma window_unique:
  fixes y z :: real
  assumes "0 < H" "- H < y" "y \<le> H" "- H < z" "z \<le> H" "y = z + 2 * H * of_int k"
  shows "y = z"
proof -
  have "\<bar>2 * H * of_int k\<bar> < 2 * H" using assms by linarith
  then have "\<bar>of_int k :: real\<bar> < 1" using assms(1)
    by (simp add: abs_mult)
  then have "k = 0" by linarith
  with assms show ?thesis by simp
qed

lemma wrap_degrees_range: "- 180 < wrap_degrees x \<and> wrap_degrees x \<le> 180"
  using wrapv_range[of 180 "rem x 360"] rem_abs_less[of 360 x]
  by (simp add: wrap_degrees_def)

lemma wrap_radians_range: "- pi < wrap_radians x \<and> wrap_radians x \<le> pi"
  using wrapv_range[of pi "rem x (2 * pi)"] rem_abs_less[of "2 * pi" x]
  by (simp add: wrap_radians_def)

lemma wrap_degrees_congruent: "\<exists>k::int. wrap_degrees x = x + 360 * of_int k"
  using wrapv_congruent[of "rem x 360" x 180 "- trunc (x / 360)"] rem_congruent[of x 360]
  by (simp add: wrap_degrees_def)

lemma wrap_radians_congruent: "\<exists>k::int. wrap_radians x = x + 2 * pi * of_int k"
  using wrapv_congruent[of "rem x (2 * pi)" x pi "- trunc (x / (2 * pi))"] rem_congruent[of x "2 * pi"]
  by (simp add: wrap_radians_def)

lemma wrap_degrees_fixed:
  assumes "- 180 < x" "x \<le> 180"
  shows "wrap_degrees x = x"
proof -
  obtain k :: int where "wrap_degrees x = x + 360 * of_int k"
    using wrap_degrees_congruent by blast
  then have "wrap_degrees x = x + 2 * 180 * of_int k" by simp
  from window_unique[OF _ _ _ assms this] wrap_degrees_range[of x]
  show ?thesis by simp
qed

lemma wrap_degrees_periodic:
  "wrap_degrees (x + 360 * of_int k) = wrap_degrees x"
proof -
  obtain i :: int where i: "wrap_degrees (x + 360 * of_int k) = x + 360 * of_int k + 360 * of_int i"
    using wrap_degrees_congruent by blast
  obtain j :: int where j: "wrap_degrees x = x + 360 * of_int j"
    using wrap_degrees_congruent by blast
  have "wrap_degrees (x + 360 * of_int k) = wrap_degrees x + 2 * 180 * of_int (k + i - j)"
    using i j by (simp add: algebra_simps)
  from window_unique[OF _ _ _ _ _ this] wrap_degrees_range[of x]
    wrap_degrees_range[of "x + 360 * of_int k"]
  show ?thesis by simp
qed

lemma wrap_degrees_0: "wrap_degrees 0 = 0"
  by (simp add: wrap_degrees_fixed)

lemma wrap_radians_fixed:
  assumes "- pi < x" "x \<le> pi"
  shows "wrap_radians x = x"
proof -
  obtain k :: int where "wrap_radians x = x + 2 * pi * of_int k"
    using wrap_radians_congruent by blast
  from window_unique[OF _ _ _ assms this] wrap_radians_range[of x]
  show ?thesis by simp
qed

lemma wrap_radians_shift:
  assumes "- pi < x + 2 * pi * of_int k" "x + 2 * pi * of_int k \<le> pi"
  shows "wrap_radians x = x + 2 * pi * of_int k"
proof -
  obtain j :: int where "wrap_radians x = x + 2 * pi * of_int j"
    using wrap_radians_congruent by blast
  then have "wrap_radians x = (x + 2 * pi * of_int k) + 2 * pi * of_int (j - k)"
    by (simp add: algebra_simps)
  from window_unique[OF _ _ _ assms this] wrap_radians_range[of x]
  show ?thesis by simp
qed

lemma wrap_degrees_shift:
  assumes "- 180 < x + 360 * of_int k" "x + 360 * of_int k \<le> 180"
  shows "wrap_degrees x = x + 360 * of_int k"
  using wrap_degrees_periodic[of x k] wrap_degrees_fixed[OF assms] by simp

section \<open>Angles\<close>

lemma arctan_le_self:
  assumes "0 \<le> z"
  shows "arctan z \<le> z"
proof -
  have "(\<lambda>x. x - arctan x) 0 \<le> (\<lambda>x. x - arctan x) z"
  proof (rule DERIV_nonneg_imp_nondecreasing[OF assms])
    fix x :: real
    assume "0 \<le> x" "x \<le> z"
    have "((\<lambda>x. x - arctan x) has_real_derivative (1 - inverse (1 + x\<^sup>2))) (at x)"
      by (auto intro!: derivative_eq_intros)
    moreover have "0 \<le> 1 - inverse (1 + x\<^sup>2)"
      by (simp add: inverse_le_1_iff)
    ultimately show "\<exists>y. ((\<lambda>x. x - arctan x) has_real_derivative y) (at x) \<and> 0 \<le> y"
      by blast
  qed
  then show ?thesis by simp
qed

lemma pi_ge_3: "3 \<le> pi"
proof -
  have "sin (pi / 6) \<le> pi / 6"
    by (rule sin_x_le_x) simp
  then show ?thesis by (simp add: sin_30)
qed

lemma pos_of_sin_pos:
  assumes "- (pi / 2) < x" "x < pi / 2" "0 < sin x"
  shows "0 < x"
proof (rule ccontr)
  assume "\<not> 0 < x"
  then have "0 \<le> - x" "- x \<le> pi" using assms(1) by simp_all
  then have "0 \<le> sin (- x)" by (rule sin_ge_zero)
  with assms(3) show False by simp
qed

lemma small_angle:
  assumes "- (pi / 2) < y" "y < pi / 2" "0 < sin y" "0 < m" "m * sin y < cos y"
  shows "0 < y \<and> y < 1 / m"
proof -
  have c: "0 < cos y" using assms(1,2) by (rule cos_gt_zero_pi)
  have t: "0 < tan y" "tan y < 1 / m"
    using assms(3,4,5) c by (simp_all add: tan_def field_simps)
  have y: "arctan (tan y) = y" using assms(1,2) by (rule arctan_tan)
  have "0 < arctan (tan y)" using t(1) by (simp add: arctan_less_zero_iff[symmetric] not_less[symmetric] del: arctan_less_zero_iff)
  moreover have "arctan (tan y) \<le> tan y" using t(1) by (intro arctan_le_self) simp
  ultimately show ?thesis using y t(2) by simp
qed

lemma sqrt5: "sqrt 5 * sqrt 5 = 5" "0 < sqrt 5" "2 < sqrt 5" "sqrt 5 < 9 / 4"
proof -
  show "sqrt 5 * sqrt 5 = 5" "0 < sqrt 5" by simp_all
  show "2 < sqrt 5" by (rule real_less_rsqrt) simp
  show "sqrt 5 < 9 / 4" by (rule real_less_lsqrt) (simp_all add: power2_eq_square)
qed

lemma arctan_one_half: "sin (arctan (1 / 2)) = 1 / sqrt 5" "cos (arctan (1 / 2)) = 2 / sqrt 5"
  "0 < arctan (1 / 2)" "arctan (1 / 2) < pi / 2"
proof -
  have s: "sqrt (1 + (1 / 2)\<^sup>2) = sqrt 5 / 2"
    by (rule real_sqrt_unique) (simp_all add: power2_eq_square)
  show "sin (arctan (1 / 2)) = 1 / sqrt 5" "cos (arctan (1 / 2)) = 2 / sqrt 5"
    unfolding sin_arctan cos_arctan s by simp_all
  show "0 < arctan (1 / 2)" "arctan (1 / 2) < pi / 2"
    using arctan_ubound[of "1 / 2"] by simp_all
qed

lemma atan2_range: "- pi < atan2 y x \<and> atan2 y x \<le> pi"
proof -
  note b = arctan_bounded[of "y / x"] pi_gt_zero
  consider "0 < x" | "x < 0" "0 \<le> y" | "x < 0" "y < 0" | "x = 0" by linarith
  then show ?thesis
  proof cases
    case 1
    have "atan2 y x = arctan (y / x)" using 1 by (simp add: atan2_def)
    then show ?thesis using b by linarith
  next
    case 2
    have "y / x \<le> 0" using 2 by (simp add: divide_nonneg_neg)
    then have "arctan (y / x) \<le> 0" by simp
    moreover have "atan2 y x = arctan (y / x) + pi" using 2 by (simp add: atan2_def)
    ultimately show ?thesis using b by linarith
  next
    case 3
    have "0 < y / x" using 3 by (simp add: divide_neg_neg)
    then have "0 < arctan (y / x)" by (simp add: arctan_less_iff[of 0, simplified])
    moreover have "atan2 y x = arctan (y / x) - pi" using 3 by (simp add: atan2_def)
    ultimately show ?thesis using b by linarith
  next
    case 4
    have "- (pi / 2) \<le> pi" using pi_gt_zero by linarith
    then show ?thesis using 4 by (simp add: atan2_def)
  qed
qed

lemma atan2_le_arctan:
  assumes "0 < x" "y \<le> m * x"
  shows "- (pi / 2) < atan2 y x \<and> atan2 y x \<le> arctan m"
proof -
  have "y / x \<le> m" using assms by (simp add: field_simps)
  then have "arctan (y / x) \<le> arctan m" by (simp add: arctan_le_iff)
  then show ?thesis using assms(1) arctan_lbound[of "y / x"] by (simp add: atan2_def)
qed

lemma atan2_ge_quarter:
  assumes "0 < y" "x \<le> y"
  shows "pi / 4 \<le> atan2 y x"
proof -
  consider "0 < x" | "x < 0" | "x = 0" by linarith
  then show ?thesis
  proof cases
    case 1
    then have "1 \<le> y / x" using assms by (simp add: field_simps)
    then have "arctan 1 \<le> arctan (y / x)" by (simp add: arctan_le_iff)
    then show ?thesis using 1 by (simp add: atan2_def arctan_one)
  next
    case 2
    have "atan2 y x = arctan (y / x) + pi" using 2 assms(1) by (simp add: atan2_def)
    then show ?thesis using arctan_lbound[of "y / x"] pi_gt_zero by linarith
  next
    case 3
    then show ?thesis using assms(1) by (simp add: atan2_def)
  qed
qed

section \<open>The normalisations of a number\<close>

lemma normalizeDegrees_Fin: "normalizeDegrees (Fin x) = Fin (wrap_degrees x)"
  by (simp add: normalizeDegrees_def wrap_degrees_def wrapv_def Let_def)

lemma normalizeDegrees_NonFinite: "normalizeDegrees NonFinite = NonFinite"
  by (simp add: normalizeDegrees_def)

lemma normalizeRadians_Fin: "normalizeRadians (Fin x) = Fin (wrap_radians x)"
  by (simp add: normalizeRadians_def wrap_radians_def wrapv_def Let_def Math_PI_def)

lemma normalizeRadians_NonFinite: "normalizeRadians NonFinite = NonFinite"
  by (simp add: normalizeRadians_def Math_PI_def)

section \<open>The evaluator against the algorithm of the specification\<close>

lemma spec_d_nonneg: "0 \<le> spec_d th p"
  by (simp add: spec_d_def spec_distance_def)

lemma Fin_zero_plus: "Fin 0 + x = x"
  by (cases x) simp_all

lemma n_r4: "PRB_GAMMA * Fin (L4 p) = Fin (spec_r4 p)"
  by (simp add: PRB_GAMMA_def spec_r4_def)

lemma n_rad: "(Fin x * Math_PI) / Fin 180 = Fin (x * pi / 180)"
  by (simp add: Math_PI_def)

lemma n_I: "(Fin (b p) * Math_pow (Fin (h p)) 3) / Fin 12 = Fin (spec_I p)"
  by (simp add: spec_I_def)

lemma n_K:
  "PRB_GAMMA * PRB_K_THETA * (Fin (E p) * Fin (spec_I p) / (Fin (L4 p) / Fin 100)) = spec_K p"
  by (simp add: PRB_GAMMA_def PRB_K_THETA_def spec_K_def)

lemma n_A:
  "Fin (r2 p) * Math_cos (Fin (th * pi / 180)) = Fin (fst (spec_A th p))"
  "Fin (r2 p) * Math_sin (Fin (th * pi / 180)) = Fin (snd (spec_A th p))"
  by (simp_all add: spec_A_def)

lemma n_distSq:
  "(Fin (fst (spec_A th p)) - Fin (r1 p)) * (Fin (fst (spec_A th p)) - Fin (r1 p)) +
   Fin (snd (spec_A th p)) * Fin (snd (spec_A th p)) = Fin ((spec_d th p)\<^sup>2)"
  by (simp add: spec_d_def spec_distance_def spec_B0_def power2_eq_square)

lemma n_dist: "Math_sqrt (Fin ((spec_d th p)\<^sup>2)) = Fin (spec_d th p)"
  using spec_d_nonneg[of th p] by simp

lemma n_test:
  "(Fin (spec_d th p) > (Fin (r3 p) + Fin (spec_r4 p)) \<or>
    Fin (spec_d th p) < Math_abs (Fin (r3 p) - Fin (spec_r4 p))) = spec_infeasible th p"
  by (simp add: spec_infeasible_def)

lemma n_cos_beta:
  "(Fin (spec_r4 p) * Fin (spec_r4 p) + Fin ((spec_d th p)\<^sup>2) - Fin (r3 p) * Fin (r3 p)) /
   (Fin 2 * Fin (spec_r4 p) * Fin (spec_d th p)) = spec_cos_beta th p"
  by (simp add: spec_cos_beta_def power2_eq_square)

lemma n_phi:
  "Math_atan2 (Fin (snd (spec_A th p))) (Fin (fst (spec_A th p)) - Fin (r1 p))
     = Fin (spec_phi th p)"
  by (simp add: spec_phi_def spec_B0_def)

lemma n_B:
  "Fin (r1 p) + Fin (spec_r4 p) * Math_cos (spec_t4 th p) = fst (spec_B th p)"
  "Fin (spec_r4 p) * Math_sin (spec_t4 th p) = snd (spec_B th p)"
  by (simp_all add: spec_B_def spec_B0_def Fin_zero_plus)

lemma calculateKinematics_infeasible:
  assumes "spec_infeasible th p"
  shows "calculateKinematics th p =
    \<lparr> theta2 = Fin th, theta3 = Fin 0, theta4 = Fin 0, deltaTheta2 = Fin (th - theta20 p),
      energy = Fin 0, torque = Fin 0, isValid = False,
      prb = \<lparr> gamma = Fin 0.85, kTheta = Fin 2.65, r4 = Fin (spec_r4 p), I = Fin (spec_I p),
              K = spec_K p \<rparr> \<rparr>"
  unfolding calculateKinematics_def Let_def
  unfolding n_r4 n_rad n_I
  unfolding n_K n_A
  unfolding n_distSq
  unfolding n_dist
  unfolding n_test if_P[OF assms] prod.case if_False
  by (simp add: normalizeDegrees_Fin wrap_degrees_0 PRB_GAMMA_def PRB_K_THETA_def Math_PI_def)

lemma calculateKinematics_feasible:
  assumes "\<not> spec_infeasible th p"
  shows "calculateKinematics th p =
    \<lparr> theta2 = Fin th,
      theta3 = normalizeDegrees (spec_t3 th p * Fin 180 / Math_PI),
      theta4 = normalizeDegrees (spec_t4 th p * Fin 180 / Math_PI),
      deltaTheta2 = Fin (th - theta20 p),
      energy = Fin 0.5 * spec_K p * Math_pow (spec_delta_theta4 th p) 2,
      torque = spec_K p * spec_delta_theta4 th p * spec_h42 th p,
      isValid = True,
      prb = \<lparr> gamma = Fin 0.85, kTheta = Fin 2.65, r4 = Fin (spec_r4 p), I = Fin (spec_I p),
              K = spec_K p \<rparr> \<rparr>"
  unfolding calculateKinematics_def Let_def
  unfolding n_r4 n_rad n_I
  unfolding n_K n_A
  unfolding n_distSq
  unfolding n_dist
  unfolding n_test if_not_P[OF assms] n_cos_beta n_phi
  unfolding spec_beta_def[symmetric]
  unfolding spec_t4_def[symmetric]
  unfolding n_B
  unfolding spec_t3_def[symmetric] prod.case if_True
  unfolding spec_delta_theta4_def[symmetric] spec_h42_def[symmetric]
  by (simp add: PRB_GAMMA_def PRB_K_THETA_def)

lemma isValid_iff: "isValid (calculateKinematics th p) = (\<not> spec_infeasible th p)"
  by (cases "spec_infeasible th p")
     (simp_all add: calculateKinematics_infeasible calculateKinematics_feasible)

section \<open>Where the quotients are defined\<close>

lemma cos_beta_zero_over_zero:
  assumes "\<not> spec_infeasible th p" "2 * spec_r4 p * spec_d th p = 0"
  shows "(spec_r4 p)\<^sup>2 + (spec_d th p)\<^sup>2 - (r3 p)\<^sup>2 = 0"
proof -
  have f: "spec_d th p \<le> r3 p + spec_r4 p" "\<bar>r3 p - spec_r4 p\<bar> \<le> spec_d th p"
    using assms(1) by (simp_all add: spec_infeasible_def not_less)
  consider "spec_r4 p = 0" | "spec_d th p = 0" using assms(2) by auto
  then show ?thesis
  proof cases
    case 1
    then have "spec_d th p = r3 p" using f by simp
    then show ?thesis using 1 by simp
  next
    case 2
    then have "r3 p = spec_r4 p" using f by simp
    then show ?thesis using 2 by simp
  qed
qed

lemma spec_K_value:
  "L4 p \<noteq> 0 \<Longrightarrow> spec_K p = Fin (K_value p)"
  "L4 p = 0 \<Longrightarrow> spec_K p = NonFinite"
  by (simp_all add: spec_K_def K_value_def)

lemma spec_finite:
  assumes "spec_r4 p \<noteq> 0" "spec_d th p \<noteq> 0"
  shows "spec_cos_beta th p = Fin (cos_beta_value th p)"
    and "spec_beta th p = Fin (beta_value th p)"
    and "spec_t4 th p = Fin (t4_value th p)"
    and "spec_B th p = (Fin (fst (B_value th p)), Fin (snd (B_value th p)))"
    and "spec_t3 th p = Fin (t3_value th p)"
    and "spec_delta_theta4 th p = Fin (delta_theta4_value th p)"
proof -
  show c: "spec_cos_beta th p = Fin (cos_beta_value th p)"
    using assms by (simp add: spec_cos_beta_def cos_beta_value_def)
  show b: "spec_beta th p = Fin (beta_value th p)"
    unfolding spec_beta_def c by (simp add: beta_value_def)
  show t4: "spec_t4 th p = Fin (t4_value th p)"
    unfolding spec_t4_def b by (simp add: t4_value_def)
  show B: "spec_B th p = (Fin (fst (B_value th p)), Fin (snd (B_value th p)))"
    unfolding spec_B_def t4 by (simp add: B_value_def)
  show t3: "spec_t3 th p = Fin (t3_value th p)"
    unfolding spec_t3_def B by (simp add: t3_value_def)
  show "spec_delta_theta4 th p = Fin (delta_theta4_value th p)"
    unfolding spec_delta_theta4_def t4
    by (simp add: delta_theta4_value_def normalizeRadians_Fin)
qed

lemma spec_degenerate:
  assumes "spec_r4 p = 0 \<or> spec_d th p = 0"
  shows "spec_cos_beta th p = NonFinite"
    and "spec_beta th p = NonFinite"
    and "spec_t4 th p = NonFinite"
    and "spec_B th p = (NonFinite, NonFinite)"
    and "spec_t3 th p = NonFinite"
    and "spec_delta_theta4 th p = NonFinite"
    and "spec_h42 th p = NonFinite"
proof -
  show c: "spec_cos_beta th p = NonFinite"
    using assms by (auto simp: spec_cos_beta_def)
  show b: "spec_beta th p = NonFinite"
    unfolding spec_beta_def c by simp
  show t4: "spec_t4 th p = NonFinite"
    unfolding spec_t4_def b by simp
  show B: "spec_B th p = (NonFinite, NonFinite)"
    unfolding spec_B_def t4 by simp
  show t3: "spec_t3 th p = NonFinite"
    unfolding spec_t3_def B by simp
  show "spec_delta_theta4 th p = NonFinite"
    unfolding spec_delta_theta4_def t4 by (simp add: normalizeRadians_NonFinite)
  show "spec_h42 th p = NonFinite"
    unfolding spec_h42_def t3 by simp
qed

lemma calculateKinematics_finite:
  assumes "\<not> spec_infeasible th p" "spec_r4 p \<noteq> 0" "spec_d th p \<noteq> 0"
  shows "theta3 (calculateKinematics th p) = Fin (wrap_degrees (t3_value th p * 180 / pi))"
    and "theta4 (calculateKinematics th p) = Fin (wrap_degrees (t4_value th p * 180 / pi))"
    and "energy (calculateKinematics th p) = Fin (0.5 * K_value p * (delta_theta4_value th p)\<^sup>2)"
proof -
  have l: "L4 p \<noteq> 0" using assms(2) by (auto simp: spec_r4_def)
  note f = spec_finite[OF assms(2,3)]
  show "theta3 (calculateKinematics th p) = Fin (wrap_degrees (t3_value th p * 180 / pi))"
    by (simp add: calculateKinematics_feasible[OF assms(1)] f Math_PI_def normalizeDegrees_Fin)
  show "theta4 (calculateKinematics th p) = Fin (wrap_degrees (t4_value th p * 180 / pi))"
    by (simp add: calculateKinematics_feasible[OF assms(1)] f Math_PI_def normalizeDegrees_Fin)
  show "energy (calculateKinematics th p) = Fin (0.5 * K_value p * (delta_theta4_value th p)\<^sup>2)"
    by (simp add: calculateKinematics_feasible[OF assms(1)] f spec_K_value(1)[OF l])
qed

lemma calculateKinematics_degenerate:
  assumes "\<not> spec_infeasible th p" "spec_r4 p = 0 \<or> spec_d th p = 0"
  shows "calculateKinematics th p =
    \<lparr> theta2 = Fin th, theta3 = NonFinite, theta4 = NonFinite,
      deltaTheta2 = Fin (th - theta20 p), energy = NonFinite, torque = NonFinite,
      isValid = True,
      prb = \<lparr> gamma = Fin 0.85, kTheta = Fin 2.65, r4 = Fin (spec_r4 p), I = Fin (spec_I p),
              K = spec_K p \<rparr> \<rparr>"
proof -
  note d = spec_degenerate[OF assms(2)]
  have e: "Fin 0.5 * spec_K p * NonFinite = NonFinite" "spec_K p * NonFinite * NonFinite = NonFinite"
    by (cases "spec_K p"; simp)+
  show ?thesis
    unfolding calculateKinematics_feasible[OF assms(1)] d
    by (simp add: normalizeDegrees_NonFinite e)
qed

lemma spec_K_pos:
  assumes "0 < E p" "0 < b p" "0 < h p" "0 < L4 p"
  shows "0 < K_value p" "spec_K p = Fin (K_value p)"
  using assms by (simp_all add: K_value_def spec_K_def spec_I_def)

lemma wrap_degrees_idem: "wrap_degrees (wrap_degrees x) = wrap_degrees x"
  using wrap_degrees_range[of x] by (simp add: wrap_degrees_fixed)

section \<open>The example parameter sets, evaluated\<close>

lemma apart_eval:
  "calculateKinematics 0 params_apart =
    \<lparr> theta2 = Fin 0, theta3 = Fin 0, theta4 = Fin 0, deltaTheta2 = Fin (- 90),
      energy = Fin 0, torque = Fin 0, isValid = False,
      prb = \<lparr> gamma = Fin (17 / 20), kTheta = Fin (53 / 20), r4 = Fin (17 / 20),
              I = Fin ((3 / 2000) ^ 3 / 2400), K = Fin (394187500 * (3 / 2000) ^ 3 / 3) \<rparr> \<rparr>"
  by (simp add: calculateKinematics_def params_apart_def Let_def PRB_GAMMA_def PRB_K_THETA_def
      Math_PI_def normalizeDegrees_Fin wrap_degrees_0)

lemma coincident_eval:
  "calculateKinematics 0 params_coincident =
    \<lparr> theta2 = Fin 0, theta3 = NonFinite, theta4 = NonFinite, deltaTheta2 = Fin (- 90),
      energy = NonFinite, torque = NonFinite, isValid = True,
      prb = \<lparr> gamma = Fin (17 / 20), kTheta = Fin (53 / 20), r4 = Fin (17 / 10),
              I = Fin ((3 / 2000) ^ 3 / 2400), K = Fin (197093750 * (3 / 2000) ^ 3 / 3) \<rparr> \<rparr>"
  by (simp add: calculateKinematics_def params_coincident_def Let_def PRB_GAMMA_def PRB_K_THETA_def
      Math_PI_def normalizeDegrees_NonFinite normalizeRadians_NonFinite)


lemma arctan_4_3: "sin (arctan (4 / 3)) = 4 / 5" "cos (arctan (4 / 3)) = 3 / 5"
proof -
  have s: "sqrt (1 + (4 / 3)\<^sup>2) = 5 / (3::real)"
    by (rule real_sqrt_unique) (simp_all add: power2_eq_square)
  show "sin (arctan (4 / 3)) = 4 / 5" "cos (arctan (4 / 3)) = 3 / 5"
    unfolding sin_arctan cos_arctan s by simp_all
qed

lemma ex345_eval:
  "calculateKinematics 0 params_345 =
    \<lparr> theta2 = Fin 0, theta3 = Fin (wrap_degrees (arctan (4 / 3) * 180 / pi)), theta4 = Fin 90,
      deltaTheta2 = Fin (- 90),
      energy = Fin ((335059375 * (3 / 2000) ^ 3 / 12) * pi\<^sup>2 / 8),
      torque = Fin (- (335059375 * (3 / 2000) ^ 3 / 12) * pi / 6),
      isValid = True,
      prb = \<lparr> gamma = Fin (17 / 20), kTheta = Fin (53 / 20), r4 = Fin 4,
              I = Fin ((3 / 2000) ^ 3 / 2400), K = Fin (335059375 * (3 / 2000) ^ 3 / 12) \<rparr> \<rparr>"
  by (simp add: calculateKinematics_def params_345_def Let_def PRB_GAMMA_def PRB_K_THETA_def
      Math_PI_def normalizeDegrees_Fin normalizeRadians_Fin
      atan2_def wrap_radians_fixed wrap_degrees_fixed sin_diff cos_diff arctan_4_3
      power2_eq_square)

lemma spec_345:
  "spec_d 0 params_345 = 3" "spec_r4 params_345 = 4"
  "spec_phi 0 params_345 = pi" "spec_beta 0 params_345 = Fin (pi / 2)"
  "spec_t4 0 params_345 = Fin (pi / 2)"
proof -
  show d: "spec_d 0 params_345 = 3" and r: "spec_r4 params_345 = 4"
    and p: "spec_phi 0 params_345 = pi"
    by (simp_all add: spec_d_def spec_distance_def spec_A_def spec_B0_def spec_r4_def
      spec_phi_def atan2_def params_345_def)
  have "r3 params_345 = 5" by (simp add: params_345_def)
  then show b: "spec_beta 0 params_345 = Fin (pi / 2)"
    by (simp add: spec_beta_def spec_cos_beta_def d r)
  show "spec_t4 0 params_345 = Fin (pi / 2)"
    by (simp add: spec_t4_def p b)
qed

lemma ex345_theta3:
  "theta3 (calculateKinematics 0 params_345) = Fin (arctan (4 / 3) * 180 / pi)"
proof -
  have p: "0 < arctan (4 / 3 :: real)" by simp
  have q: "arctan (4 / 3 :: real) < pi / 2" by (rule arctan_ubound)
  have "- 180 * pi < arctan (4 / 3) * 180" "arctan (4 / 3) * 180 \<le> 180 * pi"
    using p q pi_gt_zero by linarith+
  then have "- 180 < arctan (4 / 3) * 180 / pi" "arctan (4 / 3) * 180 / pi \<le> 180"
    using pi_gt_zero by (simp_all only: pos_less_divide_eq pos_divide_le_eq)
  then show ?thesis by (simp add: ex345_eval wrap_degrees_fixed)
qed

lemma spec_345_torque:
  "spec_K params_345 = Fin (335059375 * (3 / 2000) ^ 3 / 12)"
  "spec_t3 0 params_345 = Fin (arctan (4 / 3))"
  "spec_delta_theta4 0 params_345 = Fin (pi / 2)"
proof -
  show "spec_K params_345 = Fin (335059375 * (3 / 2000) ^ 3 / 12)"
    by (simp add: spec_K_def spec_I_def params_345_def)
  have A: "spec_A 0 params_345 = (1, 0)" and B0: "spec_B0 params_345 = (4, 0)"
    by (simp_all add: spec_A_def spec_B0_def params_345_def)
  have B: "spec_B 0 params_345 = (Fin 4, Fin 4)"
    unfolding spec_B_def B0 spec_345 by simp
  show "spec_t3 0 params_345 = Fin (arctan (4 / 3))"
    unfolding spec_t3_def A B by (simp add: atan2_def)
  have "theta40 params_345 = 0" by (simp add: params_345_def)
  then show "spec_delta_theta4 0 params_345 = Fin (pi / 2)"
    by (simp add: spec_delta_theta4_def spec_345 normalizeRadians_Fin wrap_radians_fixed)
qed

text \<open>
  A toggle position, in exact arithmetic. At crank angle 90 with \<open>params_toggle\<close> the
  coupler and the reduced rocker lie on one line, the sine of \<open>theta3 - theta4\<close> is
  exactly zero and the quotient \<open>h42\<close> is a nonzero number divided by zero. Computed in
  floating point, \<open>pi\<close> and the inverse tangents are rounded, the sine of the
  difference is in general a very small number instead of zero, and the quotient is
  then a very large finite number: the lemmas below are about the formula on the
  reals, not about the double that a run returns at this input.
\<close>

lemma arctan_3_4: "sin (arctan (3 / 4)) = 3 / 5" "cos (arctan (3 / 4)) = 4 / 5"
proof -
  have s: "sqrt (1 + (3 / 4)\<^sup>2) = 5 / (4::real)"
    by (rule real_sqrt_unique) (simp_all add: power2_eq_square)
  show "sin (arctan (3 / 4)) = 3 / 5" "cos (arctan (3 / 4)) = 4 / 5"
    unfolding sin_arctan cos_arctan s by simp_all
qed

lemma toggle_A: "spec_A 90 params_toggle = (0, 3)"
  by (simp add: spec_A_def params_toggle_def)

lemma toggle_B0: "spec_B0 params_toggle = (4, 0)"
  by (simp add: spec_B0_def params_toggle_def)

lemma toggle_r: "spec_r4 params_toggle = 3" "r3 params_toggle = 2" "r2 params_toggle = 3"
  "L4 params_toggle \<noteq> 0" "theta40 params_toggle = 90"
  by (simp_all add: spec_r4_def params_toggle_def)

lemma toggle_d: "spec_d 90 params_toggle = 5"
  by (simp add: spec_d_def spec_distance_def toggle_A toggle_B0)

lemma toggle_beta: "spec_beta 90 params_toggle = Fin 0"
  by (simp add: spec_beta_def spec_cos_beta_def toggle_d toggle_r)

lemma toggle_phi: "spec_phi 90 params_toggle = pi - arctan (3 / 4)"
  by (simp add: spec_phi_def toggle_A toggle_B0 atan2_def arctan_minus)

lemma toggle_t4: "spec_t4 90 params_toggle = Fin (pi - arctan (3 / 4))"
  by (simp add: spec_t4_def toggle_phi toggle_beta)

lemma toggle_B: "spec_B 90 params_toggle = (Fin (8 / 5), Fin (9 / 5))"
  by (simp add: spec_B_def toggle_B0 toggle_r toggle_t4 arctan_3_4)

lemma toggle_t3: "spec_t3 90 params_toggle = Fin (- arctan (3 / 4))"
  by (simp add: spec_t3_def toggle_A toggle_B atan2_def arctan_minus[symmetric])

lemma toggle_feasible: "\<not> spec_infeasible 90 params_toggle"
  by (simp add: spec_infeasible_def toggle_d toggle_r)

lemma toggle_quotient:
  "Math_sin (spec_t3 90 params_toggle - spec_t4 90 params_toggle) = Fin 0"
  "Fin (r2 params_toggle) * Math_sin (spec_t3 90 params_toggle - Fin (90 * pi / 180)) = Fin (- 12 / 5)"
  "spec_h42 90 params_toggle = NonFinite"
proof -
  show a: "Math_sin (spec_t3 90 params_toggle - spec_t4 90 params_toggle) = Fin 0"
    by (simp add: toggle_t3 toggle_t4)
  show b: "Fin (r2 params_toggle) * Math_sin (spec_t3 90 params_toggle - Fin (90 * pi / 180)) = Fin (- 12 / 5)"
    by (simp add: toggle_t3 toggle_r sin_diff arctan_3_4)
  show "spec_h42 90 params_toggle = NonFinite"
    unfolding spec_h42_def a b by simp
qed

lemma toggle_eval:
  "isValid (calculateKinematics 90 params_toggle)"
  "theta4 (calculateKinematics 90 params_toggle) = Fin (wrap_degrees ((pi - arctan (3 / 4)) * 180 / pi))"
  "torque (calculateKinematics 90 params_toggle) = NonFinite"
proof -
  note c = calculateKinematics_feasible[OF toggle_feasible]
  show "isValid (calculateKinematics 90 params_toggle)" by (simp add: c)
  show "theta4 (calculateKinematics 90 params_toggle) = Fin (wrap_degrees ((pi - arctan (3 / 4)) * 180 / pi))"
    by (simp add: c toggle_t4 Math_PI_def normalizeDegrees_Fin)
  have "spec_K params_toggle * spec_delta_theta4 90 params_toggle * NonFinite = NonFinite"
    by (cases "spec_K params_toggle * spec_delta_theta4 90 params_toggle") simp_all
  then show "torque (calculateKinematics 90 params_toggle) = NonFinite"
    by (simp add: c toggle_quotient)
qed

section \<open>The reference scenario, evaluated\<close>

lemma default_fields:
  "r1 DEFAULT_PARAMS = 3" "r2 DEFAULT_PARAMS = 3 / 2" "r3 DEFAULT_PARAMS = 371 / 100"
  "L4 DEFAULT_PARAMS = 108 / 25" "theta20 DEFAULT_PARAMS = 90" "theta40 DEFAULT_PARAMS = 90"
  "spec_r4 DEFAULT_PARAMS = 459 / 125"
  by (simp_all add: DEFAULT_PARAMS_def spec_r4_def)

lemma default_K: "K_value DEFAULT_PARAMS = 6307 / 61440"
  by (simp add: DEFAULT_PARAMS_def K_value_def spec_I_def power3_eq_cube)

lemma default_A: "spec_A 90 DEFAULT_PARAMS = (0, 3 / 2)" "spec_A (- 90) DEFAULT_PARAMS = (0, - 3 / 2)"
  by (simp_all add: spec_A_def default_fields)

lemma default_B0: "spec_B0 DEFAULT_PARAMS = (3, 0)"
  by (simp add: spec_B0_def default_fields)

lemma default_d: "spec_d 90 DEFAULT_PARAMS = sqrt (45 / 4)" "spec_d (- 90) DEFAULT_PARAMS = sqrt (45 / 4)"
  by (simp_all add: spec_d_def spec_distance_def default_A default_B0 power2_eq_square)


lemma default_cos_beta:
  "cos_beta_value 90 DEFAULT_PARAMS = (2742371 / 2754000) / sqrt 5"
  "cos_beta_value (- 90) DEFAULT_PARAMS = (2742371 / 2754000) / sqrt 5"
proof -
  have s: "sqrt (45 / 4) = 3 * sqrt 5 / 2"
    by (rule real_sqrt_unique) (simp_all add: power2_eq_square)
  show "cos_beta_value 90 DEFAULT_PARAMS = (2742371 / 2754000) / sqrt 5"
    "cos_beta_value (- 90) DEFAULT_PARAMS = (2742371 / 2754000) / sqrt 5"
    unfolding cos_beta_value_def default_d default_fields s
    by (simp_all add: power2_eq_square)
qed

lemma ref_c:
  "0 < ref_c" "ref_c < 1" "ref_c\<^sup>2 = (2742371 / 2754000)\<^sup>2 / 5" "ref_c < 9 / 20"
proof -
  show "0 < ref_c" by (simp add: ref_c_def)
  show sq: "ref_c\<^sup>2 = (2742371 / 2754000)\<^sup>2 / 5"
    by (simp add: ref_c_def power_divide)
  have "ref_c\<^sup>2 < (9 / 20)\<^sup>2" unfolding sq by (simp add: power2_eq_square)
  then show "ref_c < 9 / 20" by (rule power2_less_imp_less) simp
  then show "ref_c < 1" by simp
qed

lemma ref_s:
  "(sin ref_b)\<^sup>2 = 1 - ref_c\<^sup>2" "0 < sin ref_b" "2 * ref_c < sin ref_b"
  "398 * sin ref_b < 801 * ref_c" "89 / 100 < sin ref_b" "cos ref_b = ref_c"
proof -
  have s: "sin ref_b = sqrt (1 - ref_c\<^sup>2)"
    unfolding ref_b_def using ref_c(1,2) by (intro sin_arccos_abs) simp
  have nn: "0 \<le> 1 - ref_c\<^sup>2" unfolding ref_c(3) by (simp add: power2_eq_square)
  show sq: "(sin ref_b)\<^sup>2 = 1 - ref_c\<^sup>2" unfolding s using nn by simp
  have "(89 / 100)\<^sup>2 < (sin ref_b)\<^sup>2" unfolding sq ref_c(3) by (simp add: power2_eq_square)
  then show "89 / 100 < sin ref_b"
    by (rule power2_less_imp_less) (use nn in \<open>simp add: s\<close>)
  then show "0 < sin ref_b" by simp
  have "(2 * ref_c)\<^sup>2 < (sin ref_b)\<^sup>2"
    unfolding sq power_mult_distrib ref_c(3) by (simp add: power2_eq_square)
  then show "2 * ref_c < sin ref_b"
    by (rule power2_less_imp_less) (use nn in \<open>simp add: s\<close>)
  have "(398 * sin ref_b)\<^sup>2 < (801 * ref_c)\<^sup>2"
    unfolding power_mult_distrib sq ref_c(3) by (simp add: power2_eq_square)
  then show "398 * sin ref_b < 801 * ref_c"
    by (rule power2_less_imp_less) (use ref_c(1) in simp)
  show "cos ref_b = ref_c"
    unfolding ref_b_def using ref_c(1,2) by (intro cos_arccos) simp_all
qed

lemma ref_a:
  "sin ref_a = 1 / sqrt 5" "cos ref_a = 2 / sqrt 5" "0 < ref_a" "ref_a < pi / 2"
  unfolding ref_a_def by (rule arctan_one_half)+

lemma ref_b: "0 < ref_b" "ref_b \<le> pi / 2"
proof -
  show "0 < ref_b" unfolding ref_b_def using ref_c(1,2) by (intro arccos_lt_bounded[THEN conjunct1]) simp_all
  show "ref_b \<le> pi / 2" unfolding ref_b_def using ref_c(1,2) by (intro arccos_le_pi2) simp_all
qed

text \<open>
  At crank angle 90 the rocker falls short of 90 degrees by \<open>ref_a + ref_b - pi / 2\<close>
  radians, which is positive and less than \<open>1 / 400\<close>.
\<close>

lemma ref_short:
  "0 < ref_a + ref_b - pi / 2" "ref_a + ref_b - pi / 2 < 1 / 400"
  "sin (ref_a + ref_b - pi / 2) = (sin ref_b - 2 * ref_c) / sqrt 5"
  "cos (ref_a + ref_b - pi / 2) = (ref_c + 2 * sin ref_b) / sqrt 5"
proof -
  have "sin (ref_a + ref_b - pi / 2) = sin ref_a * sin ref_b - cos ref_a * cos ref_b"
    by (simp add: sin_diff cos_add)
  also have "\<dots> = (sin ref_b - 2 * ref_c) / sqrt 5"
    unfolding ref_a ref_s(6) by (simp add: diff_divide_distrib)
  finally show sy: "sin (ref_a + ref_b - pi / 2) = (sin ref_b - 2 * ref_c) / sqrt 5" .
  have "cos (ref_a + ref_b - pi / 2) = sin ref_a * cos ref_b + cos ref_a * sin ref_b"
    by (simp add: cos_diff sin_add)
  also have "\<dots> = (ref_c + 2 * sin ref_b) / sqrt 5"
    unfolding ref_a ref_s(6) by (simp add: add_divide_distrib)
  finally show cy: "cos (ref_a + ref_b - pi / 2) = (ref_c + 2 * sin ref_b) / sqrt 5" .
  have r: "- (pi / 2) < ref_a + ref_b - pi / 2" "ref_a + ref_b - pi / 2 < pi / 2"
    using ref_a(3,4) ref_b by linarith+
  have p: "0 < sin (ref_a + ref_b - pi / 2)"
    unfolding sy using ref_s(3) by simp
  have "400 * (sin ref_b - 2 * ref_c) < ref_c + 2 * sin ref_b"
    using ref_s(4) by (simp add: algebra_simps)
  then have m: "400 * sin (ref_a + ref_b - pi / 2) < cos (ref_a + ref_b - pi / 2)"
    unfolding sy cy by (simp add: divide_strict_right_mono)
  from small_angle[OF r p _ m]
  show "0 < ref_a + ref_b - pi / 2" "ref_a + ref_b - pi / 2 < 1 / 400" by simp_all
qed

text \<open>The angle \<open>ref_b\<close> exceeds \<open>ref_a\<close> by less than a quarter turn.\<close>

lemma ref_gap:
  "0 < ref_b - ref_a" "ref_b - ref_a < pi / 2" "59 / 100 \<le> sin (ref_b - ref_a)"
  "0 \<le> cos (ref_b - ref_a)"
proof -
  have "sin (ref_b - ref_a) = sin ref_b * cos ref_a - cos ref_b * sin ref_a"
    by (simp add: sin_diff)
  also have "\<dots> = (2 * sin ref_b - ref_c) / sqrt 5"
    unfolding ref_a ref_s(6) by (simp add: diff_divide_distrib)
  finally have sg: "sin (ref_b - ref_a) = (2 * sin ref_b - ref_c) / sqrt 5" .
  have "59 / 100 * sqrt 5 \<le> 59 / 100 * (9 / 4)"
    using sqrt5(4) by simp
  also have "\<dots> \<le> 2 * sin ref_b - ref_c"
    using ref_s(5) ref_c(4) by simp
  finally show l: "59 / 100 \<le> sin (ref_b - ref_a)"
    unfolding sg by (simp add: pos_le_divide_eq)
  have r: "- (pi / 2) < ref_b - ref_a" "ref_b - ref_a < pi / 2"
    using ref_a(3,4) ref_b by linarith+
  show "ref_b - ref_a < pi / 2" by (rule r)
  show "0 < ref_b - ref_a"
    using r by (rule pos_of_sin_pos) (use l in linarith)
  show "0 \<le> cos (ref_b - ref_a)"
    using r by (intro cos_ge_zero) simp_all
qed

lemma default_feasible:
  "\<not> spec_infeasible 90 DEFAULT_PARAMS" "\<not> spec_infeasible (- 90) DEFAULT_PARAMS"
proof -
  have "3 < sqrt (45 / 4)" by (rule real_less_rsqrt) (simp add: power2_eq_square)
  moreover have "sqrt (45 / 4) < 4" by (rule real_less_lsqrt) (simp_all add: power2_eq_square)
  ultimately show "\<not> spec_infeasible 90 DEFAULT_PARAMS" "\<not> spec_infeasible (- 90) DEFAULT_PARAMS"
    by (simp_all add: spec_infeasible_def default_d default_fields)
qed

lemma default_beta:
  "beta_value 90 DEFAULT_PARAMS = ref_b" "beta_value (- 90) DEFAULT_PARAMS = ref_b"
  unfolding beta_value_def default_cos_beta ref_c_def[symmetric] ref_b_def
  using ref_c(1,2) by simp_all

lemma default_phi:
  "spec_phi 90 DEFAULT_PARAMS = pi - ref_a" "spec_phi (- 90) DEFAULT_PARAMS = ref_a - pi"
  by (simp_all add: spec_phi_def default_A default_B0 atan2_def ref_a_def arctan_minus[symmetric])

lemma default_t4:
  "t4_value 90 DEFAULT_PARAMS = pi / 2 - (ref_a + ref_b - pi / 2)"
  "t4_value (- 90) DEFAULT_PARAMS = - pi - (ref_b - ref_a)"
  by (simp_all add: t4_value_def default_phi default_beta)

lemma quarter_turn:
  "cos (pi / 2 - y) = sin y" "sin (pi / 2 - y) = cos y"
  "cos (- pi - g) = - cos g" "sin (- pi - g) = sin g"
  by (simp_all add: cos_diff sin_diff)

lemma default_trig_t4:
  "cos (t4_value 90 DEFAULT_PARAMS) = sin (ref_a + ref_b - pi / 2)"
  "sin (t4_value 90 DEFAULT_PARAMS) = cos (ref_a + ref_b - pi / 2)"
  "cos (t4_value (- 90) DEFAULT_PARAMS) = - cos (ref_b - ref_a)"
  "sin (t4_value (- 90) DEFAULT_PARAMS) = sin (ref_b - ref_a)"
  unfolding default_t4 by (rule quarter_turn)+

lemma default_theta4_90:
  "wrap_degrees (t4_value 90 DEFAULT_PARAMS * 180 / pi)
     = 90 - (ref_a + ref_b - pi / 2) * 180 / pi"
  "0 < (ref_a + ref_b - pi / 2) * 180 / pi" "(ref_a + ref_b - pi / 2) * 180 / pi < 3 / 20"
proof -
  have e: "t4_value 90 DEFAULT_PARAMS * 180 / pi = 90 - (ref_a + ref_b - pi / 2) * 180 / pi"
    unfolding default_t4 by (simp add: field_simps)
  show p: "0 < (ref_a + ref_b - pi / 2) * 180 / pi"
    using ref_short(1) by simp
  have "(ref_a + ref_b - pi / 2) * 180 < 1 / 400 * 180"
    using ref_short(2) by simp
  also have "\<dots> \<le> 3 / 20 * pi" using pi_ge_3 by simp
  finally show u: "(ref_a + ref_b - pi / 2) * 180 / pi < 3 / 20"
    by (simp add: pos_divide_less_eq)
  show "wrap_degrees (t4_value 90 DEFAULT_PARAMS * 180 / pi)
     = 90 - (ref_a + ref_b - pi / 2) * 180 / pi"
    unfolding e using p u by (intro wrap_degrees_fixed) linarith+
qed

lemma default_theta4_minus_90:
  "wrap_degrees (t4_value (- 90) DEFAULT_PARAMS * 180 / pi)
     = 180 - (ref_b - ref_a) * 180 / pi"
  "0 < (ref_b - ref_a) * 180 / pi" "(ref_b - ref_a) * 180 / pi < 90"
proof -
  have e: "t4_value (- 90) DEFAULT_PARAMS * 180 / pi = - 180 - (ref_b - ref_a) * 180 / pi"
    unfolding default_t4 by (simp add: field_simps)
  show p: "0 < (ref_b - ref_a) * 180 / pi"
    using ref_gap(1) by simp
  have "(ref_b - ref_a) * 180 < pi / 2 * 180"
    using ref_gap(2) by simp
  then show u: "(ref_b - ref_a) * 180 / pi < 90"
    by (simp add: pos_divide_less_eq)
  have "wrap_degrees (t4_value (- 90) DEFAULT_PARAMS * 180 / pi)
      = t4_value (- 90) DEFAULT_PARAMS * 180 / pi + 360 * of_int 1"
    unfolding e using p u by (intro wrap_degrees_shift) simp_all
  then show "wrap_degrees (t4_value (- 90) DEFAULT_PARAMS * 180 / pi)
     = 180 - (ref_b - ref_a) * 180 / pi"
    unfolding e by simp
qed

lemma default_delta:
  "delta_theta4_value 90 DEFAULT_PARAMS = - (ref_a + ref_b - pi / 2)"
  "delta_theta4_value (- 90) DEFAULT_PARAMS = pi / 2 - (ref_b - ref_a)"
proof -
  have "t4_value 90 DEFAULT_PARAMS - theta40 DEFAULT_PARAMS * pi / 180 = - (ref_a + ref_b - pi / 2)"
    unfolding default_t4 default_fields by simp
  then have "delta_theta4_value 90 DEFAULT_PARAMS = wrap_radians (- (ref_a + ref_b - pi / 2))"
    unfolding delta_theta4_value_def by (rule arg_cong)
  also have "\<dots> = - (ref_a + ref_b - pi / 2)"
    using ref_short(1,2) pi_ge_3 by (intro wrap_radians_fixed) linarith+
  finally show "delta_theta4_value 90 DEFAULT_PARAMS = - (ref_a + ref_b - pi / 2)" .
  have "t4_value (- 90) DEFAULT_PARAMS - theta40 DEFAULT_PARAMS * pi / 180
      = - pi - (ref_b - ref_a) - pi / 2"
    unfolding default_t4 default_fields by simp
  then have "delta_theta4_value (- 90) DEFAULT_PARAMS
      = wrap_radians (- pi - (ref_b - ref_a) - pi / 2)"
    unfolding delta_theta4_value_def by (rule arg_cong)
  also have "\<dots> = (- pi - (ref_b - ref_a) - pi / 2) + 2 * pi * of_int 1"
    using ref_gap(1,2) pi_gt_zero by (intro wrap_radians_shift) simp_all
  finally show "delta_theta4_value (- 90) DEFAULT_PARAMS = pi / 2 - (ref_b - ref_a)"
    by simp
qed


lemma default_theta3_90:
  "wrap_degrees (t3_value 90 DEFAULT_PARAMS * 180 / pi) < 45"
proof -
  let ?y = "ref_a + ref_b - pi / 2"
  have sy: "0 < sin ?y"
    unfolding ref_short(3) using ref_s(3) by simp
  have t3: "t3_value 90 DEFAULT_PARAMS = atan2 (459 / 125 * cos ?y - 3 / 2) (3 + 459 / 125 * sin ?y)"
    unfolding t3_value_def B_value_def default_trig_t4 default_A default_B0 default_fields by simp
  have x: "0 < 3 + 459 / 125 * sin ?y" using sy by simp
  have "459 / 125 * cos ?y - 3 / 2 \<le> 459 / 125 * 1 - 3 / 2"
    by (intro diff_right_mono mult_left_mono) simp_all
  also have "\<dots> \<le> 181 / 250 * (3 + 459 / 125 * sin ?y)" using sy by simp
  finally have y: "459 / 125 * cos ?y - 3 / 2 \<le> 181 / 250 * (3 + 459 / 125 * sin ?y)" .
  from atan2_le_arctan[OF x y]
  have b: "- (pi / 2) < t3_value 90 DEFAULT_PARAMS" "t3_value 90 DEFAULT_PARAMS \<le> arctan (181 / 250)"
    unfolding t3 by simp_all
  have "arctan (181 / 250) < arctan 1" by (simp add: arctan_less_iff)
  then have u: "t3_value 90 DEFAULT_PARAMS < pi / 4" using b(2) by (simp add: arctan_one)
  have l: "- 90 < t3_value 90 DEFAULT_PARAMS * 180 / pi"
    using b(1) by (simp add: pos_less_divide_eq)
  have h: "t3_value 90 DEFAULT_PARAMS * 180 / pi < 45"
    using u by (simp add: pos_divide_less_eq)
  have "wrap_degrees (t3_value 90 DEFAULT_PARAMS * 180 / pi) = t3_value 90 DEFAULT_PARAMS * 180 / pi"
    using l h by (intro wrap_degrees_fixed) linarith+
  then show ?thesis using h by simp
qed

lemma default_theta3_minus_90:
  "45 \<le> wrap_degrees (t3_value (- 90) DEFAULT_PARAMS * 180 / pi)"
proof -
  let ?g = "ref_b - ref_a"
  have t3: "t3_value (- 90) DEFAULT_PARAMS = atan2 (459 / 125 * sin ?g + 3 / 2) (3 - 459 / 125 * cos ?g)"
    unfolding t3_value_def B_value_def default_trig_t4 default_A default_B0 default_fields by simp
  have "459 / 125 * (59 / 100) \<le> 459 / 125 * sin ?g"
    using ref_gap(3) by (intro mult_left_mono) simp_all
  then have y: "3 \<le> 459 / 125 * sin ?g + 3 / 2" "0 < 459 / 125 * sin ?g + 3 / 2" by simp_all
  have "3 - 459 / 125 * cos ?g \<le> 3" using ref_gap(4) by simp
  then have x: "3 - 459 / 125 * cos ?g \<le> 459 / 125 * sin ?g + 3 / 2" using y(1) by linarith
  from atan2_ge_quarter[OF y(2) x] atan2_range
  have b: "pi / 4 \<le> t3_value (- 90) DEFAULT_PARAMS" "t3_value (- 90) DEFAULT_PARAMS \<le> pi"
    unfolding t3 by simp_all
  have l: "45 \<le> t3_value (- 90) DEFAULT_PARAMS * 180 / pi"
    using b(1) by (simp add: pos_le_divide_eq)
  have h: "t3_value (- 90) DEFAULT_PARAMS * 180 / pi \<le> 180"
    using b(2) by (simp add: pos_divide_le_eq)
  have "wrap_degrees (t3_value (- 90) DEFAULT_PARAMS * 180 / pi) = t3_value (- 90) DEFAULT_PARAMS * 180 / pi"
    using l h by (intro wrap_degrees_fixed) linarith+
  then show ?thesis using l by simp
qed

lemma default_defined:
  "spec_r4 DEFAULT_PARAMS \<noteq> 0" "spec_d 90 DEFAULT_PARAMS \<noteq> 0" "spec_d (- 90) DEFAULT_PARAMS \<noteq> 0"
  by (simp_all add: default_fields default_d)

section \<open>The joint position projector\<close>

lemma polar_norm: "sqrt ((r * cos t)\<^sup>2 + (r * sin t)\<^sup>2) = \<bar>r\<bar>"
proof -
  have "(r * cos t)\<^sup>2 + (r * sin t)\<^sup>2 = r\<^sup>2 * ((cos t)\<^sup>2 + (sin t)\<^sup>2)"
    unfolding power_mult_distrib distrib_left ..
  also have "\<dots> = r\<^sup>2" by simp
  finally show ?thesis by simp
qed

lemma getJointPositions_finite:
  assumes "theta2 s = Fin t2" "theta3 s = Fin t3"
  shows "getJointPositions s p =
    \<lparr> A0 = (Fin 0, Fin 0),
      A = (Fin (r2 p * cos (t2 * pi / 180)), Fin (r2 p * sin (t2 * pi / 180))),
      B = (Fin (r2 p * cos (t2 * pi / 180) + r3 p * cos (t3 * pi / 180)),
           Fin (r2 p * sin (t2 * pi / 180) + r3 p * sin (t3 * pi / 180))),
      B0 = (Fin (r1 p), Fin 0) \<rparr>"
  by (simp add: getJointPositions_def Let_def assms Math_PI_def)

lemma getJointPositions_lengths:
  assumes "theta2 s = Fin t2" "theta3 s = Fin t3"
  shows "spec_distance_number (A (getJointPositions s p)) (A0 (getJointPositions s p)) = Fin \<bar>r2 p\<bar>"
    and "spec_distance_number (B (getJointPositions s p)) (A (getJointPositions s p)) = Fin \<bar>r3 p\<bar>"
  by (simp_all add: getJointPositions_finite[OF assms] spec_distance_number_def polar_norm not_less)

section \<open>Away from the coincident position\<close>

text \<open>
  Three properties that hold on every evaluation whose cosine of \<open>beta\<close> is a
  quotient with a denominator other than zero, and on every infeasible one. They fail
  where the evaluator divides zero by zero (theorems \<open>coincident_angles_not_finite\<close>,
  \<open>coincident_energy_not_finite\<close> and \<open>coincident_coupler_pin_not_finite\<close> below).

  Degree normalisation leaves every finite angle of \<open>(-180, 180]\<close> unchanged, is
  idempotent and is 360-periodic; the evaluator returns \<open>theta2\<close> as supplied.
\<close>

lemma normalizeDegrees_idempotent_periodic:
  "(- 180 < x \<and> x \<le> 180 \<longrightarrow> normalizeDegrees (Fin x) = Fin x) \<and>
   normalizeDegrees (normalizeDegrees (Fin x)) = normalizeDegrees (Fin x) \<and>
   normalizeDegrees (Fin (x + 360 * of_int k)) = normalizeDegrees (Fin x) \<and>
   theta2 (calculateKinematics th p) = Fin th"
proof -
  have t2: "theta2 (calculateKinematics th p) = Fin th"
    by (cases "spec_infeasible th p")
       (simp_all add: calculateKinematics_infeasible calculateKinematics_feasible)
  show ?thesis
    using t2 wrap_degrees_periodic[of x k]
    by (simp add: normalizeDegrees_Fin wrap_degrees_fixed wrap_degrees_idem)
qed

text \<open>The reported \<open>theta3\<close> and \<open>theta4\<close> lie in \<open>(-180, 180]\<close>.\<close>

lemma reported_angles_in_range:
  assumes "spec_infeasible th p \<or> (L4 p \<noteq> 0 \<and> spec_d th p \<noteq> 0)"
  shows "Fin (- 180) < theta3 (calculateKinematics th p) \<and>
         theta3 (calculateKinematics th p) \<le> Fin 180 \<and>
         Fin (- 180) < theta4 (calculateKinematics th p) \<and>
         theta4 (calculateKinematics th p) \<le> Fin 180"
proof (cases "spec_infeasible th p")
  case True
  then show ?thesis by (simp add: calculateKinematics_infeasible)
next
  case False
  then have "spec_r4 p \<noteq> 0" "spec_d th p \<noteq> 0" using assms by (simp_all add: spec_r4_def)
  note f = calculateKinematics_finite[OF False this]
  show ?thesis
    unfolding f using wrap_degrees_range by simp
qed

text \<open>
  For positive \<open>E\<close>, \<open>b\<close>, \<open>h\<close> and \<open>L4\<close> the stiffness \<open>K\<close> is finite and positive
  and the energy is not negative: it is \<open>0.5 * K * deltaTheta4^2\<close> on a valid state,
  with \<open>deltaTheta4\<close> in \<open>(-pi, pi]\<close>, and 0 on an infeasible one.
\<close>

lemma energy_nonnegative:
  assumes "0 < E p" "0 < b p" "0 < h p" "0 < L4 p"
    and "spec_infeasible th p \<or> spec_d th p \<noteq> 0"
  shows "Fin 0 \<le> energy (calculateKinematics th p) \<and>
         K (prb (calculateKinematics th p)) = Fin (K_value p) \<and> 0 < K_value p \<and>
         energy (calculateKinematics th p) =
           (if isValid (calculateKinematics th p)
            then Fin 0.5 * K (prb (calculateKinematics th p)) * Math_pow (spec_delta_theta4 th p) 2
            else Fin 0) \<and>
         (isValid (calculateKinematics th p) \<longrightarrow>
            Fin (- pi) < spec_delta_theta4 th p \<and> spec_delta_theta4 th p \<le> Fin pi)"
proof (cases "spec_infeasible th p")
  case True
  then show ?thesis
    using spec_K_pos[OF assms(1-4)] by (simp add: calculateKinematics_infeasible)
next
  case False
  then have nz: "spec_r4 p \<noteq> 0" "spec_d th p \<noteq> 0"
    using assms(4,5) by (simp_all add: spec_r4_def)
  note f = spec_finite[OF nz]
  have r: "- pi < delta_theta4_value th p \<and> delta_theta4_value th p \<le> pi"
    unfolding delta_theta4_value_def by (rule wrap_radians_range)
  show ?thesis
    using spec_K_pos[OF assms(1-4)] r False
    by (simp add: calculateKinematics_feasible f)
qed

text \<open>
  The projector applied to the state that the evaluator returns: \<open>|A - A0| = |r2|\<close>
  and \<open>|B - A| = |r3|\<close>, which are \<open>r2\<close> and \<open>r3\<close> for the lengths of the data model.
\<close>

lemma joint_positions_link_lengths:
  assumes "spec_infeasible th p \<or> (L4 p \<noteq> 0 \<and> spec_d th p \<noteq> 0)"
  shows "spec_distance_number (A (getJointPositions (calculateKinematics th p) p))
                              (A0 (getJointPositions (calculateKinematics th p) p)) = Fin \<bar>r2 p\<bar> \<and>
         spec_distance_number (B (getJointPositions (calculateKinematics th p) p))
                              (A (getJointPositions (calculateKinematics th p) p)) = Fin \<bar>r3 p\<bar>"
proof -
  have t2: "theta2 (calculateKinematics th p) = Fin th"
    by (cases "spec_infeasible th p")
       (simp_all add: calculateKinematics_infeasible calculateKinematics_feasible)
  have "\<exists>t3. theta3 (calculateKinematics th p) = Fin t3"
  proof (cases "spec_infeasible th p")
    case True
    then show ?thesis by (simp add: calculateKinematics_infeasible)
  next
    case False
    then have "spec_r4 p \<noteq> 0" "spec_d th p \<noteq> 0" using assms by (simp_all add: spec_r4_def)
    from calculateKinematics_finite(1)[OF False this] show ?thesis by blast
  qed
  then obtain t3 where t3: "theta3 (calculateKinematics th p) = Fin t3" by blast
  from getJointPositions_lengths[OF t2 t3] show ?thesis by simp
qed

section \<open>The claims\<close>

text \<open>
  C1. For every parameter set and every crank angle, the evaluator returns
  \<open>isValid = false\<close> exactly when the distance \<open>d\<close> from the crank pin
  \<open>A = (r2 cos theta2, r2 sin theta2)\<close> to the fixed pivot \<open>B0 = (r1, 0)\<close> satisfies
  \<open>d > r3 + r4\<close> or \<open>d < |r3 - r4|\<close>, with \<open>r4 = 0.85 * L4\<close>, and \<open>isValid = true\<close>
  otherwise: nothing but the assembly test decides the flag.
\<close>

theorem assembly_test_is_validity:
  "(isValid (calculateKinematics th p) = False) =
     (spec_d th p > r3 p + 0.85 * L4 p \<or> spec_d th p < \<bar>r3 p - 0.85 * L4 p\<bar>)"
  by (simp add: isValid_iff spec_infeasible_def spec_r4_def)

text \<open>
  C2. The evaluator is a total function with no error outcome. When assembly is
  infeasible the record it returns has \<open>theta3 = 0\<close>, \<open>theta4 = 0\<close>, \<open>energy = 0\<close>
  and \<open>torque = 0\<close>, and every field is present: the record is the one displayed, with
  the crank angle, \<open>deltaTheta2\<close> and the PRB constants filled in as for a feasible
  state.
\<close>

theorem infeasible_record_defaults:
  assumes "\<not> isValid (calculateKinematics th p)"
  shows "theta3 (calculateKinematics th p) = Fin 0 \<and> theta4 (calculateKinematics th p) = Fin 0 \<and>
         energy (calculateKinematics th p) = Fin 0 \<and> torque (calculateKinematics th p) = Fin 0 \<and>
         calculateKinematics th p =
           \<lparr> theta2 = Fin th, theta3 = Fin 0, theta4 = Fin 0, deltaTheta2 = Fin (th - theta20 p),
             energy = Fin 0, torque = Fin 0, isValid = False,
             prb = \<lparr> gamma = Fin 0.85, kTheta = Fin 2.65, r4 = Fin (0.85 * L4 p),
                     I = Fin (b p * h p ^ 3 / 12),
                     K = Fin (0.85 * 2.65 * E p * (b p * h p ^ 3 / 12)) / Fin (L4 p / 100) \<rparr> \<rparr>"
proof -
  have "spec_infeasible th p" using assms by (simp add: isValid_iff)
  then show ?thesis
    by (simp add: calculateKinematics_infeasible spec_r4_def spec_I_def spec_K_def)
qed

theorem infeasible_record_defaults_witness:
  "\<not> isValid (calculateKinematics 0 params_apart) \<and>
   theta3 (calculateKinematics 0 params_apart) = Fin 0 \<and>
   theta4 (calculateKinematics 0 params_apart) = Fin 0 \<and>
   energy (calculateKinematics 0 params_apart) = Fin 0 \<and>
   torque (calculateKinematics 0 params_apart) = Fin 0"
proof -
  have v: "\<not> isValid (calculateKinematics 0 params_apart)"
    by (simp add: apart_eval)
  from infeasible_record_defaults[OF v] v show ?thesis by simp
qed

text \<open>
  C3. Whenever assembly is feasible, the reported \<open>theta4\<close> is the normalised
  \<open>phi - beta\<close>, where \<open>beta\<close> is the inverse cosine of
  \<open>(r4^2 + d^2 - r3^2) / (2 r4 d)\<close> passed through \<open>max(-1, min(1, .))\<close> and
  \<open>phi = atan2 (Ay - B0y) (Ax - B0x)\<close>; wherever the other branch \<open>phi + beta\<close> would
  be reported as a different angle, the evaluator does not report it; and the reported
  \<open>theta3\<close> is the normalised \<open>atan2 (By - Ay) (Bx - Ax)\<close> with
  \<open>B = B0 + r4 (cos theta4, sin theta4)\<close>.
\<close>

theorem rocker_branch_phi_minus_beta:
  assumes "isValid (calculateKinematics th p)"
  shows "theta4 (calculateKinematics th p)
           = normalizeDegrees ((Fin (spec_phi th p) - spec_beta th p) * Fin 180 / Math_PI) \<and>
         theta3 (calculateKinematics th p) = normalizeDegrees (spec_t3 th p * Fin 180 / Math_PI) \<and>
         (normalizeDegrees ((Fin (spec_phi th p) + spec_beta th p) * Fin 180 / Math_PI)
            \<noteq> normalizeDegrees ((Fin (spec_phi th p) - spec_beta th p) * Fin 180 / Math_PI) \<longrightarrow>
          theta4 (calculateKinematics th p)
            \<noteq> normalizeDegrees ((Fin (spec_phi th p) + spec_beta th p) * Fin 180 / Math_PI))"
proof -
  have "\<not> spec_infeasible th p" using assms by (simp add: isValid_iff)
  then show ?thesis
    by (simp add: calculateKinematics_feasible spec_t4_def)
qed

theorem rocker_branch_phi_minus_beta_witness:
  "isValid (calculateKinematics 0 params_345) \<and>
   theta4 (calculateKinematics 0 params_345) = Fin 90 \<and>
   normalizeDegrees ((Fin (spec_phi 0 params_345) - spec_beta 0 params_345) * Fin 180 / Math_PI) = Fin 90 \<and>
   normalizeDegrees ((Fin (spec_phi 0 params_345) + spec_beta 0 params_345) * Fin 180 / Math_PI) = Fin (- 90) \<and>
   theta3 (calculateKinematics 0 params_345) = normalizeDegrees (spec_t3 0 params_345 * Fin 180 / Math_PI)"
proof -
  have v: "isValid (calculateKinematics 0 params_345)"
    by (simp add: ex345_eval)
  have m: "normalizeDegrees ((Fin (spec_phi 0 params_345) - spec_beta 0 params_345) * Fin 180 / Math_PI) = Fin 90"
    by (simp add: spec_345 Math_PI_def normalizeDegrees_Fin wrap_degrees_fixed)
  have "(Fin (spec_phi 0 params_345) + spec_beta 0 params_345) * Fin 180 / Math_PI = Fin 270"
    by (simp add: spec_345 Math_PI_def)
  then have a: "normalizeDegrees ((Fin (spec_phi 0 params_345) + spec_beta 0 params_345) * Fin 180 / Math_PI) = Fin (- 90)"
    by (simp add: normalizeDegrees_Fin wrap_degrees_def wrapv_def rem_def trunc_def)
  from rocker_branch_phi_minus_beta[OF v] v m a show ?thesis by simp
qed

text \<open>
  C4. On every evaluation, feasible or not, the embedded PRB constants are
  \<open>r4 = 0.85 * L4\<close>, \<open>I = b * h^3 / 12\<close> and
  \<open>K = 0.85 * 2.65 * E * I / (L4 / 100)\<close>: only the stiffness divides \<open>L4\<close> by 100,
  the reduced link length uses \<open>L4\<close> as it is.
\<close>

theorem prb_constants:
  "prb (calculateKinematics th p) =
     \<lparr> gamma = Fin 0.85, kTheta = Fin 2.65, r4 = Fin (0.85 * L4 p), I = Fin (b p * h p ^ 3 / 12),
       K = Fin (0.85 * 2.65 * E p * (b p * h p ^ 3 / 12)) / Fin (L4 p / 100) \<rparr>"
  by (cases "spec_infeasible th p")
     (simp_all add: calculateKinematics_infeasible calculateKinematics_feasible
        spec_r4_def spec_I_def spec_K_def)

text \<open>
  C5. With the reference default parameters, the evaluation at crank angle 90 is valid,
  \<open>theta4\<close> is within 0.15 degrees of 90, \<open>deltaTheta2\<close> is exactly 0 and the energy
  lies between 0 and one millionth of a joule. The evaluation at crank angle -90 is
  valid, its energy is finite and positive, and its \<open>theta3\<close> and \<open>theta4\<close> differ from
  those at 90. The tolerances are those that the exact values meet: \<open>theta4\<close> is about
  89.88 degrees and the energy about \<open>2.3e-7\<close>.
\<close>

theorem default_scenario:
  "isValid (calculateKinematics 90 DEFAULT_PARAMS) \<and>
   Fin (90 - 3 / 20) < theta4 (calculateKinematics 90 DEFAULT_PARAMS) \<and>
   theta4 (calculateKinematics 90 DEFAULT_PARAMS) < Fin (90 + 3 / 20) \<and>
   deltaTheta2 (calculateKinematics 90 DEFAULT_PARAMS) = Fin 0 \<and>
   Fin 0 \<le> energy (calculateKinematics 90 DEFAULT_PARAMS) \<and>
   energy (calculateKinematics 90 DEFAULT_PARAMS) < Fin (1 / 1000000) \<and>
   isValid (calculateKinematics (- 90) DEFAULT_PARAMS) \<and>
   energy (calculateKinematics (- 90) DEFAULT_PARAMS) \<noteq> NonFinite \<and>
   Fin 0 < energy (calculateKinematics (- 90) DEFAULT_PARAMS) \<and>
   theta3 (calculateKinematics (- 90) DEFAULT_PARAMS) \<noteq> theta3 (calculateKinematics 90 DEFAULT_PARAMS) \<and>
   theta4 (calculateKinematics (- 90) DEFAULT_PARAMS) \<noteq> theta4 (calculateKinematics 90 DEFAULT_PARAMS)"
proof -
  let ?y = "ref_a + ref_b - pi / 2"
  let ?g = "ref_b - ref_a"
  note up = calculateKinematics_finite[OF default_feasible(1) default_defined(1,2)]
  note dn = calculateKinematics_finite[OF default_feasible(2) default_defined(1,3)]
  have v: "isValid (calculateKinematics 90 DEFAULT_PARAMS)"
    "isValid (calculateKinematics (- 90) DEFAULT_PARAMS)"
    using default_feasible by (simp_all add: isValid_iff)
  have t4u: "theta4 (calculateKinematics 90 DEFAULT_PARAMS) = Fin (90 - ?y * 180 / pi)"
    by (simp add: up(2) default_theta4_90(1))
  have t4d: "theta4 (calculateKinematics (- 90) DEFAULT_PARAMS) = Fin (180 - ?g * 180 / pi)"
    by (simp add: dn(2) default_theta4_minus_90(1))
  have "90 - 3 / 20 < 90 - ?y * 180 / pi" "90 - ?y * 180 / pi < 90 + 3 / 20"
    using default_theta4_90(2,3) by linarith+
  then have a4: "Fin (90 - 3 / 20) < theta4 (calculateKinematics 90 DEFAULT_PARAMS)"
    "theta4 (calculateKinematics 90 DEFAULT_PARAMS) < Fin (90 + 3 / 20)"
    unfolding t4u less_number.simps by blast+
  have "180 - ?g * 180 / pi \<noteq> 90 - ?y * 180 / pi"
    using default_theta4_90(2) default_theta4_minus_90(3) by linarith
  then have n4: "theta4 (calculateKinematics (- 90) DEFAULT_PARAMS) \<noteq> theta4 (calculateKinematics 90 DEFAULT_PARAMS)"
    unfolding t4u t4d by simp
  have d2: "deltaTheta2 (calculateKinematics 90 DEFAULT_PARAMS) = Fin 0"
    by (simp add: calculateKinematics_feasible[OF default_feasible(1)] default_fields)
  have "0.5 * K_value DEFAULT_PARAMS * (delta_theta4_value 90 DEFAULT_PARAMS)\<^sup>2 = 6307 / 122880 * ?y\<^sup>2"
    unfolding default_K default_delta(1) power2_minus by simp
  then have eu: "energy (calculateKinematics 90 DEFAULT_PARAMS) = Fin (6307 / 122880 * ?y\<^sup>2)"
    unfolding up(3) by simp
  have "?y\<^sup>2 < (1 / 400)\<^sup>2"
    using ref_short(1,2) by (intro power_strict_mono) simp_all
  then have e1: "energy (calculateKinematics 90 DEFAULT_PARAMS) < Fin (1 / 1000000)"
    unfolding eu by (simp add: power2_eq_square)
  have e0: "Fin 0 \<le> energy (calculateKinematics 90 DEFAULT_PARAMS)"
    unfolding eu by simp
  have "0.5 * K_value DEFAULT_PARAMS * (delta_theta4_value (- 90) DEFAULT_PARAMS)\<^sup>2
      = 6307 / 122880 * (pi / 2 - ?g)\<^sup>2"
    unfolding default_K default_delta(2) by simp
  then have ed: "energy (calculateKinematics (- 90) DEFAULT_PARAMS) = Fin (6307 / 122880 * (pi / 2 - ?g)\<^sup>2)"
    unfolding dn(3) by simp
  have "0 < pi / 2 - ?g" using ref_gap(2) by simp
  then have e2: "Fin 0 < energy (calculateKinematics (- 90) DEFAULT_PARAMS)"
    "energy (calculateKinematics (- 90) DEFAULT_PARAMS) \<noteq> NonFinite"
    unfolding ed by simp_all
  have n3: "theta3 (calculateKinematics (- 90) DEFAULT_PARAMS) \<noteq> theta3 (calculateKinematics 90 DEFAULT_PARAMS)"
    unfolding up(1) dn(1) using default_theta3_90 default_theta3_minus_90 by simp
  show ?thesis
    using v a4 d2 e0 e1 e2 n3 n4 by blast
qed

text \<open>
  C6. The claim: degree normalisation is idempotent and 360-periodic, and the evaluator
  reports \<open>theta3\<close> and \<open>theta4\<close> normalised into \<open>(-180, 180]\<close> and \<open>theta2\<close> as
  supplied. The code departs from it in one position. At crank angle 0 with
  \<open>params_coincident\<close> the crank pin lies on the pivot \<open>B0\<close> and the coupler is as
  long as the reduced rocker; the distance 0 passes the assembly test, the cosine of
  \<open>beta\<close> is zero divided by zero, and the state comes back flagged valid with a
  \<open>theta3\<close> and a \<open>theta4\<close> that are not numbers of \<open>(-180, 180]\<close>. Everywhere else
  the claim holds (lemmas \<open>normalizeDegrees_idempotent_periodic\<close> and
  \<open>reported_angles_in_range\<close>).
\<close>

theorem coincident_angles_not_finite:
  "isValid (calculateKinematics 0 params_coincident) \<and>
   theta3 (calculateKinematics 0 params_coincident) = NonFinite \<and>
   theta4 (calculateKinematics 0 params_coincident) = NonFinite \<and>
   \<not> theta3 (calculateKinematics 0 params_coincident) \<le> Fin 180 \<and>
   \<not> theta4 (calculateKinematics 0 params_coincident) \<le> Fin 180"
  by (simp add: coincident_eval)

text \<open>
  C7. The claim: for positive \<open>E\<close>, \<open>b\<close>, \<open>h\<close> and \<open>L4\<close> and every crank angle the
  returned energy is not negative. The code departs from it in the same position as
  for C6: at crank angle 0 with \<open>params_coincident\<close> the state is flagged valid and
  its energy is not finite, so it is not a number at or above 0. Everywhere else the
  claim holds (lemma \<open>energy_nonnegative\<close>).
\<close>

theorem coincident_energy_not_finite:
  "0 < E params_coincident \<and> 0 < b params_coincident \<and> 0 < h params_coincident \<and>
   0 < L4 params_coincident \<and>
   isValid (calculateKinematics 0 params_coincident) \<and>
   energy (calculateKinematics 0 params_coincident) = NonFinite \<and>
   \<not> Fin 0 \<le> energy (calculateKinematics 0 params_coincident)"
  by (simp add: coincident_eval) (simp add: params_coincident_def)

text \<open>
  C8. On every valid state the torque is \<open>K * deltaTheta4 * h42\<close> with the stiffness
  \<open>K = 0.85 * 2.65 * E * I / (L4 / 100)\<close>, the deflection \<open>deltaTheta4\<close> of the
  rocker from \<open>theta40\<close> and
  \<open>h42 = (r2 sin (theta3 - theta2)) / (r4 sin (theta3 - theta4))\<close>, angles in radians;
  it is 0 on an infeasible state. The quotient is taken with no guard on its
  denominator: the torque of a valid state is the value of this formula whatever the
  denominator is, also where it is zero and the value is not finite.
\<close>

theorem torque_unguarded_quotient:
  "torque (calculateKinematics th p) =
     (if isValid (calculateKinematics th p)
      then spec_K p * spec_delta_theta4 th p *
           ((Fin (r2 p) * Math_sin (spec_t3 th p - Fin (th * pi / 180))) /
            (Fin (0.85 * L4 p) * Math_sin (spec_t3 th p - spec_t4 th p)))
      else Fin 0)"
  by (cases "spec_infeasible th p")
     (simp_all add: calculateKinematics_infeasible calculateKinematics_feasible
        spec_h42_def spec_r4_def)

theorem torque_unguarded_quotient_witness:
  "isValid (calculateKinematics 0 params_345) \<and>
   torque (calculateKinematics 0 params_345) = Fin (- (335059375 * (3 / 2000) ^ 3 / 12) * pi / 6) \<and>
   \<not> isValid (calculateKinematics 0 params_apart) \<and>
   torque (calculateKinematics 0 params_apart) = Fin 0"
proof -
  have a: "isValid (calculateKinematics 0 params_345)"
    by (simp add: ex345_eval)
  have r: "r2 params_345 = 1" "L4 params_345 = 80 / 17"
    by (simp_all add: params_345_def)
  have t: "torque (calculateKinematics 0 params_345) = Fin (- (335059375 * (3 / 2000) ^ 3 / 12) * pi / 6)"
    using torque_unguarded_quotient[of 0 params_345] a
    by (simp add: spec_345_torque spec_345 r sin_diff arctan_4_3)
  have b: "\<not> isValid (calculateKinematics 0 params_apart)"
    by (simp add: apart_eval)
  have c: "torque (calculateKinematics 0 params_apart) = Fin 0"
    using torque_unguarded_quotient[of 0 params_apart] b by simp
  show ?thesis
    using a t b c by blast
qed

text \<open>
  C9. The claim: for every valid mechanism state the projector returns points with
  \<open>|A - A0| = r2\<close> and \<open>|B - A| = r3\<close>, \<open>A\<close> computed from \<open>theta2\<close> of the state and
  \<open>B\<close> from \<open>theta3\<close>. The code departs from it in the same position as for C6: the
  state that the evaluator returns at crank angle 0 with \<open>params_coincident\<close> is
  flagged valid, its \<open>theta3\<close> is not finite, and the projector places \<open>B\<close> at
  coordinates that are not finite, at no distance \<open>r3\<close> from \<open>A\<close>. Everywhere else
  the claim holds (lemma \<open>joint_positions_link_lengths\<close>).
\<close>

theorem coincident_coupler_pin_not_finite:
  "isValid (calculateKinematics 0 params_coincident) \<and>
   A (getJointPositions (calculateKinematics 0 params_coincident) params_coincident) = (Fin 1, Fin 0) \<and>
   B (getJointPositions (calculateKinematics 0 params_coincident) params_coincident)
     = (NonFinite, NonFinite) \<and>
   spec_distance_number
     (B (getJointPositions (calculateKinematics 0 params_coincident) params_coincident))
     (A (getJointPositions (calculateKinematics 0 params_coincident) params_coincident))
     \<noteq> Fin (r3 params_coincident)"
  by (simp add: coincident_eval getJointPositions_def Let_def spec_distance_number_def Math_PI_def)
     (simp add: params_coincident_def)

text \<open>
  C10. The projector is total on every state, valid or not: it returns \<open>A0 = (0, 0)\<close>
  and \<open>B0 = (r1, 0)\<close>, the point \<open>A\<close> at distance \<open>r2\<close> from the origin in the
  direction \<open>theta2\<close> of the state, and the point \<open>B\<close> at distance \<open>r3\<close> from \<open>A\<close> in
  the direction \<open>theta3\<close> of the state, both angles in degrees. On the state that the
  evaluator returns for an infeasible input, \<open>theta2\<close> is the supplied crank angle and
  \<open>theta3\<close> is 0, so that \<open>A\<close> is the crank pin of that angle and \<open>B = A + (r3, 0)\<close>.
\<close>

theorem joint_positions_total:
  "A0 (getJointPositions s p) = (Fin 0, Fin 0) \<and> B0 (getJointPositions s p) = (Fin (r1 p), Fin 0) \<and>
   A (getJointPositions s p) =
     (Fin (r2 p) * Math_cos (theta2 s * Fin pi / Fin 180),
      Fin (r2 p) * Math_sin (theta2 s * Fin pi / Fin 180)) \<and>
   B (getJointPositions s p) =
     (fst (A (getJointPositions s p)) + Fin (r3 p) * Math_cos (theta3 s * Fin pi / Fin 180),
      snd (A (getJointPositions s p)) + Fin (r3 p) * Math_sin (theta3 s * Fin pi / Fin 180)) \<and>
   (\<not> isValid (calculateKinematics th p) \<longrightarrow>
      theta2 (calculateKinematics th p) = Fin th \<and> theta3 (calculateKinematics th p) = Fin 0 \<and>
      A (getJointPositions (calculateKinematics th p) p) =
        (Fin (r2 p * cos (th * pi / 180)), Fin (r2 p * sin (th * pi / 180))) \<and>
      B (getJointPositions (calculateKinematics th p) p) =
        (Fin (r2 p * cos (th * pi / 180) + r3 p), Fin (r2 p * sin (th * pi / 180))))"
  by (cases "spec_infeasible th p")
     (simp_all add: isValid_iff calculateKinematics_infeasible getJointPositions_def Let_def Math_PI_def)

theorem joint_positions_total_witness:
  "\<not> isValid (calculateKinematics 0 params_apart) \<and>
   A0 (getJointPositions (calculateKinematics 0 params_apart) params_apart) = (Fin 0, Fin 0) \<and>
   B0 (getJointPositions (calculateKinematics 0 params_apart) params_apart) = (Fin 10, Fin 0) \<and>
   A (getJointPositions (calculateKinematics 0 params_apart) params_apart) = (Fin 1, Fin 0) \<and>
   B (getJointPositions (calculateKinematics 0 params_apart) params_apart) = (Fin 2, Fin 0) \<and>
   isValid (calculateKinematics 0 params_345) \<and>
   A (getJointPositions (calculateKinematics 0 params_345) params_345) = (Fin 1, Fin 0) \<and>
   B (getJointPositions (calculateKinematics 0 params_345) params_345) = (Fin 4, Fin 4)"
proof -
  have v: "\<not> isValid (calculateKinematics 0 params_apart)"
    by (simp add: apart_eval)
  have r: "r1 params_apart = 10" "r2 params_apart = 1" "r3 params_apart = 1"
    by (simp_all add: params_apart_def)
  have q: "r2 params_345 = 1" "r3 params_345 = 5"
    by (simp_all add: params_345_def)
  have w: "isValid (calculateKinematics 0 params_345)"
    "theta2 (calculateKinematics 0 params_345) = Fin 0"
    by (simp_all add: ex345_eval)
  note x = joint_positions_total[of "calculateKinematics 0 params_apart" params_apart 0]
  note y = joint_positions_total[of "calculateKinematics 0 params_345" params_345 0]
  have a: "A (getJointPositions (calculateKinematics 0 params_345) params_345) = (Fin 1, Fin 0)"
    using y by (simp add: w q)
  have b: "B (getJointPositions (calculateKinematics 0 params_345) params_345) = (Fin 4, Fin 4)"
    using y by (simp add: a ex345_theta3 q arctan_4_3)
  from x v a b w(1) show ?thesis by (simp add: r)
qed

end
